theory Spec2Isabelle
  imports Complex_Main "HOL-Library.Multiset" "HOL-Library.Sublist"
begin

text \<open>
  The self-learning loop of AIRI and the long-term memory it feeds: the memory store with its
  confidence lifecycle (\<^verbatim>\<open>memory-long-term\<close> store), the self-learning store with its
  topics, run ledger and schedule (\<^verbatim>\<open>stores/modules/self-learning.ts\<close>), and the pipeline
  RETRIEVE, JUDGE, DISTILL, CONSOLIDATE (\<^verbatim>\<open>composables/use-self-learning.ts\<close>). State is
  passed explicitly, thrown errors are values, and the clock, the identifier generator and
  the network are arguments.
\<close>

section \<open>JavaScript strings and arrays\<close>

text \<open>
  Strings are lists of characters; the development covers ASCII text, where a character is
  one UTF-16 code unit and \<open>length\<close> is the \<^verbatim>\<open>.length\<close> of the source.
  \<open>isSpace\<close> is the class \<^verbatim>\<open>\s\<close> restricted to ASCII (tab, line feed, vertical tab,
  form feed, carriage return, space); \<open>toLowerCase\<close> maps \<^verbatim>\<open>A-Z\<close> to \<^verbatim>\<open>a-z\<close>.
\<close>

definition isSpace :: "char \<Rightarrow> bool" where
  "isSpace c = (c = CHR 0x09 \<or> c = CHR 0x0A \<or> c = CHR 0x0B \<or> c = CHR 0x0C \<or> c = CHR 0x0D
                \<or> c = CHR 0x20)"

definition toLowerChar :: "char \<Rightarrow> char" where
  "toLowerChar c =
     (let n = (of_char c :: nat) in if 65 \<le> n \<and> n \<le> 90 then char_of (n + 32) else c)"

definition toLowerCase :: "string \<Rightarrow> string" where
  "toLowerCase s = map toLowerChar s"

text \<open>\<^verbatim>\<open>s.trim()\<close>: white space removed at both ends.\<close>

definition trim :: "string \<Rightarrow> string" where
  "trim s = rev (dropWhile isSpace (rev (dropWhile isSpace s)))"

text \<open>
  \<^verbatim>\<open>s.split(/\s+/)\<close>: the pieces between maximal runs of white space. A run at the start
  or at the end of the string leaves an empty piece there, and the empty string splits into
  one empty piece. \<open>cur\<close> is the piece being read.
\<close>

function splitFrom :: "string \<Rightarrow> string \<Rightarrow> string list" where
  "splitFrom cur [] = [cur]"
| "splitFrom cur (c # cs) =
     (if isSpace c then cur # splitFrom [] (dropWhile isSpace cs)
      else splitFrom (cur @ [c]) cs)"
  by pat_completeness auto
termination
  by (relation "measure (\<lambda>(cur, s). length s)")
     (auto simp: less_Suc_eq_le length_dropWhile_le)

definition splitWhitespace :: "string \<Rightarrow> string list" where
  "splitWhitespace s = splitFrom [] s"

text \<open>\<^verbatim>\<open>e.includes(w)\<close>: \<open>w\<close> occurs in \<open>e\<close> as a contiguous substring.\<close>

fun includesStr :: "string \<Rightarrow> string \<Rightarrow> bool" where
  "includesStr [] w = (w = [])"
| "includesStr (c # cs) w = (take (length w) (c # cs) = w \<or> includesStr cs w)"

text \<open>
  \<^verbatim>\<open>xs.slice(0, n)\<close> for an integer \<open>n\<close>: a negative end counts from the end of the array.
\<close>

definition slice0 :: "int \<Rightarrow> 'a list \<Rightarrow> 'a list" where
  "slice0 n xs = (if 0 \<le> n then take (nat n) xs else take (length xs - nat (- n)) xs)"

text \<open>\<^verbatim>\<open>parts.join(sep)\<close>.\<close>

fun join :: "string \<Rightarrow> string list \<Rightarrow> string" where
  "join sep [] = []"
| "join sep [x] = x"
| "join sep (x # y # ys) = x @ sep @ join sep (y # ys)"

section \<open>Double-precision numbers\<close>

text \<open>
  A finite double is \<open>m * 2 ^ e\<close> with an integer \<open>m\<close> of magnitude below \<open>2 ^ 53\<close> and
  \<open>- 1074 \<le> e \<le> 971\<close>. \<open>nearest x\<close> is the real \<open>x\<close> rounded to the nearest such number, ties
  going to the even \<open>m\<close>, with no bound on the exponent from above: the magnitude is scaled by
  \<open>2 ^ 1074\<close>, so that the doubles below \<open>2 ^ -1021\<close> are the integers, and rounded at the
  scale \<open>2 ^ shift\<close> that leaves 53 bits. \<open>bitLength n\<close> is the number of bits of \<open>n\<close>.
\<close>

function bitLength :: "int \<Rightarrow> nat" where
  "bitLength n = (if n \<le> 0 then 0 else Suc (bitLength (n div 2)))"
  by pat_completeness auto
termination
  by (relation "measure nat") auto

declare bitLength.simps [simp del]

definition roundHalfEven :: "real \<Rightarrow> int" where
  "roundHalfEven z =
     (let f = \<lfloor>z\<rfloor>; r = z - of_int f
      in if r < 1 / 2 then f else if 1 / 2 < r then f + 1 else if even f then f else f + 1)"

definition denormalExponent :: nat where
  "denormalExponent = 1074"

definition nearest :: "real \<Rightarrow> real" where
  "nearest x =
     (let y = \<bar>x\<bar> * 2 ^ denormalExponent;
          shift = bitLength \<lfloor>y\<rfloor> - 53;
          r = of_int (roundHalfEven (y / 2 ^ shift)) * 2 ^ shift / 2 ^ denormalExponent
      in if x < 0 then - r else r)"

text \<open>
  The result of an arithmetic operation on finite doubles whose exact result is \<open>x\<close>: the
  nearest double, or an infinity when the rounded magnitude reaches \<open>2 ^ 1024\<close>. A negative
  zero is the real 0; the operations below do not tell the two zeros apart.
\<close>

datatype number = Finite real | PlusInfinity | MinusInfinity

definition toDouble :: "real \<Rightarrow> number" where
  "toDouble x =
     (let r = nearest x
      in if 2 ^ 1024 \<le> r then PlusInfinity
         else if r \<le> - (2 ^ 1024) then MinusInfinity
         else Finite r)"

text \<open>\<^verbatim>\<open>a + b\<close> and \<open>a - b\<close> for a finite \<open>a\<close>, \<^verbatim>\<open>Math.min(1, x)\<close> and \<^verbatim>\<open>Math.max(0, x)\<close>.\<close>

fun plusNumber :: "real \<Rightarrow> number \<Rightarrow> number" where
  "plusNumber a (Finite b) = toDouble (a + b)"
| "plusNumber a PlusInfinity = PlusInfinity"
| "plusNumber a MinusInfinity = MinusInfinity"

fun minusNumber :: "real \<Rightarrow> number \<Rightarrow> number" where
  "minusNumber a (Finite b) = toDouble (a - b)"
| "minusNumber a PlusInfinity = MinusInfinity"
| "minusNumber a MinusInfinity = PlusInfinity"

fun mathMin1 :: "number \<Rightarrow> number" where
  "mathMin1 (Finite x) = Finite (min 1 x)"
| "mathMin1 PlusInfinity = Finite 1"
| "mathMin1 MinusInfinity = MinusInfinity"

fun mathMax0 :: "number \<Rightarrow> number" where
  "mathMax0 (Finite x) = Finite (max 0 x)"
| "mathMax0 PlusInfinity = PlusInfinity"
| "mathMax0 MinusInfinity = Finite 0"

section \<open>Long-term memory store\<close>

datatype entrySource = Manual | SelfLearning

text \<open>
  \<open>confidence\<close> is a JavaScript number, a double; a finite double is held as the real
  number it denotes. Time stamps are the integer milliseconds of \<^verbatim>\<open>Date.now()\<close>, of
  magnitude below \<open>2 ^ 53\<close>, which doubles hold exactly.
\<close>

record memoryEntry =
  entry_id :: string
  content :: string
  tags :: "string list"
  source :: entrySource
  confidence :: real
  useCount :: nat
  createdAt :: int
  updatedAt :: int

record longTermMemoryStore =
  enabled :: bool
  maxInjectedEntries :: int
  entries :: "memoryEntry list"

section \<open>CONSOLIDATE: deduplication against the store\<close>

text \<open>
  \<open>deduplicateInsights\<close> of \<^verbatim>\<open>use-self-learning.ts\<close>. The quotient
  \<^verbatim>\<open>matches.length / words.length\<close> is a quotient of two array lengths, and \<open>words\<close> is
  never empty. The quotient is taken in the real numbers: for arrays of fewer than
  \<open>10^15\<close> elements the double nearest to it is at least the double nearest to 0.6 exactly
  when the quotient itself is at least three fifths.
\<close>

definition isDuplicateOf :: "string list \<Rightarrow> string \<Rightarrow> bool" where
  "isDuplicateOf words e =
     (let matches = filter (\<lambda>w. length w > 4 \<and> includesStr e w) words
      in real (length matches) / real (length words) \<ge> 0.6)"

definition deduplicateInsights :: "longTermMemoryStore \<Rightarrow> string list \<Rightarrow> string list" where
  "deduplicateInsights memoryStore insights =
     (let existing = map (\<lambda>e. toLowerCase (content e)) (entries memoryStore)
      in filter (\<lambda>insight.
           let lower = toLowerCase insight;
               words = splitWhitespace lower
           in \<not> list_ex (isDuplicateOf words) existing) insights)"

section \<open>Confidence lifecycle of the memory store\<close>

text \<open>
  The operations of the store take the reading of \<^verbatim>\<open>Date.now()\<close> and the string drawn
  from \<^verbatim>\<open>nanoid()\<close> as arguments \<open>now\<close> and \<open>newId\<close>, and return the store with its
  \<open>entries\<close> replaced (the source assigns a new array to \<^verbatim>\<open>entries.value\<close>).
  \<open>boostConfidence\<close> reads the clock inside the callback of \<^verbatim>\<open>map\<close>, once for every entry
  with the given identifier; the entries that match are given the one reading \<open>now\<close>.
  The literals 0.6 and 0.8 of \<open>addEntry\<close> are the doubles nearest to them. The arithmetic
  of \<open>boostConfidence\<close> and \<open>decayConfidence\<close> is that of doubles, every operation rounded;
  their arguments \<open>delta\<close>, \<open>decayRate\<close> and \<open>pruneBelow\<close> are finite doubles. A confidence
  that becomes an infinity cannot be held in the field \<open>confidence\<close>: the result of the
  operation is then \<open>None\<close>.
\<close>

definition addEntry ::
  "string \<Rightarrow> int \<Rightarrow> string \<Rightarrow> string list \<Rightarrow> entrySource \<Rightarrow> longTermMemoryStore
     \<Rightarrow> memoryEntry \<times> longTermMemoryStore" where
  "addEntry newId now cont tgs src m =
     (let entry = \<lparr>entry_id = newId, content = trim cont, tags = tgs, source = src,
                    confidence = (if src = SelfLearning then nearest 0.6 else nearest 0.8),
                    useCount = 0, createdAt = now, updatedAt = now\<rparr>
      in (entry, m\<lparr>entries := entries m @ [entry]\<rparr>))"

definition boostEntry :: "int \<Rightarrow> string \<Rightarrow> real \<Rightarrow> memoryEntry \<Rightarrow> memoryEntry option" where
  "boostEntry now eid delta entry =
     (if entry_id entry = eid
      then (case mathMin1 (plusNumber (confidence entry) (Finite delta)) of
              Finite c \<Rightarrow> Some (entry\<lparr>confidence := c,
                                       useCount := useCount entry + 1,
                                       updatedAt := now\<rparr>)
            | PlusInfinity \<Rightarrow> None
            | MinusInfinity \<Rightarrow> None)
      else Some entry)"

definition boostConfidence ::
  "int \<Rightarrow> string \<Rightarrow> real \<Rightarrow> longTermMemoryStore \<Rightarrow> longTermMemoryStore option" where
  "boostConfidence now eid delta m =
     (case those (map (boostEntry now eid delta) (entries m)) of
        None \<Rightarrow> None
      | Some boosted \<Rightarrow> Some (m\<lparr>entries := boosted\<rparr>))"

definition oneWeekMs :: int where
  "oneWeekMs = 7 * 24 * 60 * 60 * 1000"

text \<open>
  The two constants of the callback of \<open>decayConfidence\<close>: the difference of the time
  stamps, the quotient, the product and the difference are each rounded.
\<close>

definition ageWeeks :: "int \<Rightarrow> memoryEntry \<Rightarrow> real" where
  "ageWeeks now entry =
     nearest (nearest (real_of_int (now - updatedAt entry)) / real_of_int oneWeekMs)"

definition decayed :: "int \<Rightarrow> real \<Rightarrow> memoryEntry \<Rightarrow> number" where
  "decayed now decayRate entry =
     minusNumber (confidence entry) (toDouble (decayRate * ageWeeks now entry))"

definition decayEntry :: "int \<Rightarrow> real \<Rightarrow> memoryEntry \<Rightarrow> memoryEntry option" where
  "decayEntry now decayRate entry =
     (case mathMax0 (decayed now decayRate entry) of
        Finite c \<Rightarrow> Some (entry\<lparr>confidence := c\<rparr>)
      | PlusInfinity \<Rightarrow> None
      | MinusInfinity \<Rightarrow> None)"

definition decayConfidence ::
  "int \<Rightarrow> real \<Rightarrow> real \<Rightarrow> longTermMemoryStore \<Rightarrow> longTermMemoryStore option" where
  "decayConfidence now decayRate pruneBelow m =
     (case those (map (decayEntry now decayRate) (entries m)) of
        None \<Rightarrow> None
      | Some decayedEntries \<Rightarrow>
          Some (m\<lparr>entries := filter (\<lambda>entry. confidence entry \<ge> pruneBelow) decayedEntries\<rparr>))"

text \<open>
  The comparator of \<open>sortedEntries\<close>: a negative number puts \<open>a\<close> before \<open>b\<close>.
\<close>

definition compareEntries :: "memoryEntry \<Rightarrow> memoryEntry \<Rightarrow> real" where
  "compareEntries a b =
     (if confidence b \<noteq> confidence a then confidence b - confidence a
      else real_of_int (updatedAt b - updatedAt a))"

text \<open>
  \<^verbatim>\<open>Array.prototype.sort\<close> is stable: elements that the comparator does not separate
  keep their order. The arrangement is computed by insertion, each element going in front
  of the first later element that it does not follow.
\<close>

fun insertBy :: "('a \<Rightarrow> 'a \<Rightarrow> real) \<Rightarrow> 'a \<Rightarrow> 'a list \<Rightarrow> 'a list" where
  "insertBy cmp x [] = [x]"
| "insertBy cmp x (y # ys) = (if cmp x y \<le> 0 then x # y # ys else y # insertBy cmp x ys)"

definition sortBy :: "('a \<Rightarrow> 'a \<Rightarrow> real) \<Rightarrow> 'a list \<Rightarrow> 'a list" where
  "sortBy cmp xs = foldr (insertBy cmp) xs []"

definition sortedEntries :: "longTermMemoryStore \<Rightarrow> memoryEntry list" where
  "sortedEntries m = sortBy compareEntries (entries m)"

definition getEntriesForContext :: "longTermMemoryStore \<Rightarrow> memoryEntry list" where
  "getEntriesForContext m =
     (if \<not> enabled m then []
      else let sorted = sortedEntries m
           in if maxInjectedEntries m > 0 then slice0 (maxInjectedEntries m) sorted
              else sorted)"

section \<open>Self-learning store: topics, run ledger, schedule\<close>

datatype learningSchedule = ManualSchedule | Hourly | Daily | Weekly

datatype runStatus = StatusRunning | StatusDone | StatusError

record learningTopic =
  topic_id :: string
  name :: string
  hint :: string
  topic_enabled :: bool
  topic_createdAt :: int

record learningRun =
  run_id :: string
  startedAt :: int
  completedAt :: "int option"
  status :: runStatus
  topicsProcessed :: "string list"
  insightsSaved :: nat
  run_error :: "string option"

record selfLearningStore =
  learning_enabled :: bool
  schedule :: learningSchedule
  topics :: "learningTopic list"
  runHistory :: "learningRun list"
  lastRunAt :: "int option"
  maxPagesPerTopic :: int
  verboseOutput :: bool

definition configured :: "selfLearningStore \<Rightarrow> bool" where
  "configured l = (learning_enabled l \<and> list_ex topic_enabled (topics l))"

definition activeTopics :: "selfLearningStore \<Rightarrow> learningTopic list" where
  "activeTopics l = filter topic_enabled (topics l)"

definition latestRun :: "selfLearningStore \<Rightarrow> learningRun option" where
  "latestRun l = (case runHistory l of [] \<Rightarrow> None | r # _ \<Rightarrow> Some r)"

definition isRunning :: "selfLearningStore \<Rightarrow> bool" where
  "isRunning l = (case latestRun l of None \<Rightarrow> False | Some r \<Rightarrow> status r = StatusRunning)"

definition startRun ::
  "string \<Rightarrow> int \<Rightarrow> string list \<Rightarrow> selfLearningStore \<Rightarrow> learningRun \<times> selfLearningStore" where
  "startRun newId now topicNames l =
     (let run = \<lparr>run_id = newId, startedAt = now, completedAt = None, status = StatusRunning,
                  topicsProcessed = topicNames, insightsSaved = 0, run_error = None\<rparr>
      in (run, l\<lparr>runHistory := take 20 (run # runHistory l)\<rparr>))"

definition completeRun :: "int \<Rightarrow> string \<Rightarrow> nat \<Rightarrow> selfLearningStore \<Rightarrow> selfLearningStore" where
  "completeRun now runId saved l =
     l\<lparr>runHistory := map (\<lambda>r.
          if run_id r = runId
          then r\<lparr>status := StatusDone, completedAt := Some now, insightsSaved := saved\<rparr>
          else r) (runHistory l),
       lastRunAt := Some now\<rparr>"

text \<open>
  \<open>failRun\<close> reads the clock inside the callback of \<^verbatim>\<open>map\<close>, once for every record with the
  given identifier; the identifiers are drawn from \<^verbatim>\<open>nanoid\<close>, and the records that match
  are given the one reading \<open>now\<close>.
\<close>

definition failRun :: "int \<Rightarrow> string \<Rightarrow> string \<Rightarrow> selfLearningStore \<Rightarrow> selfLearningStore" where
  "failRun now runId err l =
     l\<lparr>runHistory := map (\<lambda>r.
          if run_id r = runId
          then r\<lparr>status := StatusError, completedAt := Some now, run_error := Some err\<rparr>
          else r) (runHistory l)\<rparr>"

text \<open>
  The table of intervals in milliseconds; \<open>None\<close> is the \<^verbatim>\<open>Infinity\<close> of \<^verbatim>\<open>manual\<close>, which
  no elapsed time reaches.
\<close>

definition intervals :: "learningSchedule \<Rightarrow> int option" where
  "intervals s =
     (case s of
        ManualSchedule \<Rightarrow> None
      | Hourly \<Rightarrow> Some (60 * 60 * 1000)
      | Daily \<Rightarrow> Some (24 * 60 * 60 * 1000)
      | Weekly \<Rightarrow> Some (7 * 24 * 60 * 60 * 1000))"

text \<open>
  \<open>isDue\<close>, with the reading of the clock as \<open>now\<close>. The test \<^verbatim>\<open>!lastRunAt.value\<close> holds
  for \<^verbatim>\<open>null\<close> and for the number \<^verbatim>\<open>0\<close>.
\<close>

definition isDue :: "int \<Rightarrow> selfLearningStore \<Rightarrow> bool" where
  "isDue now l =
     (case lastRunAt l of
        None \<Rightarrow> schedule l \<noteq> ManualSchedule
      | Some t \<Rightarrow>
          if schedule l = ManualSchedule \<or> t = 0 then schedule l \<noteq> ManualSchedule
          else let elapsed = now - t
               in (case intervals (schedule l) of None \<Rightarrow> False | Some i \<Rightarrow> elapsed \<ge> i))"

section \<open>The learning pipeline\<close>

subsection \<open>Collaborators\<close>

text \<open>
  A thrown JavaScript error is a value; \<open>Returned\<close> and \<open>Thrown\<close> are the two ways an
  asynchronous function settles.
\<close>

datatype error = Error (message: string)

datatype 'a completion = Returned 'a | Thrown error

record webSearchResult =
  title :: string
  url :: string
  snippet :: string

record pageContent =
  page_url :: string
  page_title :: string
  page_content :: string

text \<open>An element of a parsed JSON array is a string or something else.\<close>

datatype jsonValue = JsonString string | JsonOther

text \<open>
  What the pipeline calls outside the two stores. \<open>search\<close> is \<^verbatim>\<open>webSearchStore.search\<close>,
  whose back ends await \<^verbatim>\<open>ofetch\<close> without a handler, so it may throw; \<open>ofetch\<close> is the
  request of \<open>readPage\<close>; \<open>generateText\<close> is the call of the language model through the
  chat provider with the active model and the prompt, its result the \<^verbatim>\<open>text\<close> field
  (absent as \<open>None\<close>); \<open>jsonParse\<close> is \<^verbatim>\<open>JSON.parse\<close> on a text that starts with an opening
  and ends with a closing bracket; \<open>matchTitle\<close> is the first group of
  \<^verbatim>\<open>content.match(/^#\s+(.+)/m)\<close>. \<open>dateNow k\<close> and \<open>nanoid k\<close> are the clock reading and
  the identifier drawn by the \<open>k\<close>-th store operation.
\<close>

record 'p env =
  dateNow :: "nat \<Rightarrow> int"
  nanoid :: "nat \<Rightarrow> string"
  getProviderInstance :: "string \<Rightarrow> error + 'p"
  search :: "string \<Rightarrow> nat \<Rightarrow> error + webSearchResult list"
  ofetch :: "string \<Rightarrow> error + string"
  matchTitle :: "string \<Rightarrow> string option"
  generateText :: "'p \<Rightarrow> string \<Rightarrow> string \<Rightarrow> error + string option"
  jsonParse :: "string \<Rightarrow> error + jsonValue list"

datatype webSearchBackend = Searxng | Brave | Duckduckgo

record webSearchStore =
  search_enabled :: bool
  backend :: webSearchBackend
  searxngUrl :: string
  braveApiKey :: string

definition search_configured :: "webSearchStore \<Rightarrow> bool" where
  "search_configured w =
     (if \<not> search_enabled w then False
      else (case backend w of
              Searxng \<Rightarrow> trim (searxngUrl w) \<noteq> []
            | Brave \<Rightarrow> trim (braveApiKey w) \<noteq> []
            | Duckduckgo \<Rightarrow> True))"

record consciousnessStore =
  activeProvider :: string
  activeModel :: string

text \<open>The stores the pipeline works on, and the number of store operations done so far.\<close>

record app =
  selfLearningStore :: selfLearningStore
  memoryStore :: longTermMemoryStore
  webSearchStore :: webSearchStore
  consciousnessStore :: consciousnessStore
  tick :: nat

subsection \<open>DISTILL\<close>

definition readPage :: "'p env \<Rightarrow> string \<Rightarrow> string" where
  "readPage env u =
     (case ofetch env (''https://r.jina.ai/'' @ u) of
        Inl _ \<Rightarrow> []
      | Inr cont \<Rightarrow> take 6000 cont)"

text \<open>
  The match of the response against the pattern "an opening bracket, any characters, a
  closing bracket", which is greedy: from the first opening bracket to the last closing
  bracket after it.
\<close>

definition matchArray :: "string \<Rightarrow> string option" where
  "matchArray txt =
     (let fromOpen = dropWhile (\<lambda>c. c \<noteq> CHR 0x5B) txt
      in if fromOpen \<noteq> [] \<and> CHR 0x5D \<in> set (tl fromOpen)
         then Some (rev (dropWhile (\<lambda>c. c \<noteq> CHR 0x5D) (rev fromOpen)))
         else None)"

definition newline :: string where
  "newline = [CHR 0x0A]"

definition quote :: string where
  "quote = [CHR 0x22]"

text \<open>The dash of the third line of the prompt is written as its three UTF-8 bytes.\<close>

definition distillPrompt :: "string \<Rightarrow> string \<Rightarrow> string" where
  "distillPrompt topic combinedContent =
     join newline
       [''You are AIRI's knowledge extractor. The user wants you to learn about: ''
          @ quote @ topic @ quote @ ''.'',
        ''Below is content from recent web pages on this topic.'',
        ''Extract 3'' @ [CHR 0xE2, CHR 0x80, CHR 0x93]
          @ ''8 concise, factual insights that are worth remembering long-term.'',
        ''Each insight should be a single sentence (max 120 characters).'',
        ''Return ONLY a JSON array of strings, nothing else. Example:'',
        ''['' @ quote @ ''Insight 1'' @ quote @ '', '' @ quote @ ''Insight 2'' @ quote
          @ '', '' @ quote @ ''Insight 3'' @ quote @ '']'',
        [],
        ''--- CONTENT ---'',
        combinedContent]"

fun stringValues :: "jsonValue list \<Rightarrow> string list" where
  "stringValues [] = []"
| "stringValues (JsonString s # vs) = s # stringValues vs"
| "stringValues (JsonOther # vs) = stringValues vs"

definition distillInsights ::
  "'p env \<Rightarrow> string \<Rightarrow> 'p \<Rightarrow> string \<Rightarrow> pageContent list \<Rightarrow> string list" where
  "distillInsights env model chatProvider topic pages =
     (if pages = [] then []
      else
        let combinedContent =
              take 10000
                (join (newline @ newline @ ''---'' @ newline @ newline)
                   (map (\<lambda>p. ''### '' @ (if page_title p \<noteq> [] then page_title p else page_url p)
                              @ newline @ page_content p) pages));
            prompt = distillPrompt topic combinedContent
        in (case generateText env chatProvider model prompt of
              Inl _ \<Rightarrow> []
            | Inr result \<Rightarrow>
                let txt = trim (case result of None \<Rightarrow> [] | Some t \<Rightarrow> t)
                in if txt = [] then []
                   else (case matchArray txt of
                           None \<Rightarrow> []
                         | Some m \<Rightarrow>
                             (case jsonParse env m of
                                Inl _ \<Rightarrow> []
                              | Inr insights \<Rightarrow>
                                  take 8 (map trim
                                    (filter (\<lambda>s. length (trim s) > 0)
                                       (stringValues insights)))))))"

fun readPages :: "'p env \<Rightarrow> string list \<Rightarrow> pageContent list" where
  "readPages env [] = []"
| "readPages env (u # us) =
     (let cont = readPage env u
      in if length (trim cont) > 200
         then \<lparr>page_url = u,
               page_title = (case matchTitle env cont of Some t \<Rightarrow> t | None \<Rightarrow> u),
               page_content = cont\<rparr> # readPages env us
         else readPages env us)"

subsection \<open>The run\<close>

definition addEntryApp :: "'p env \<Rightarrow> string \<Rightarrow> string list \<Rightarrow> entrySource \<Rightarrow> app \<Rightarrow> app" where
  "addEntryApp env cont tgs src a =
     a\<lparr>memoryStore := snd (addEntry (nanoid env (tick a)) (dateNow env (tick a)) cont tgs src
                              (memoryStore a)),
       tick := tick a + 1\<rparr>"

fun saveInsights :: "'p env \<Rightarrow> string \<Rightarrow> string list \<Rightarrow> app \<Rightarrow> nat \<Rightarrow> app \<times> nat" where
  "saveInsights env topicName [] a totalInsights = (a, totalInsights)"
| "saveInsights env topicName (insight # rest) a totalInsights =
     saveInsights env topicName rest
       (addEntryApp env insight [topicName, ''self-learning''] SelfLearning a)
       (totalInsights + 1)"

text \<open>The query of RETRIEVE: the name of the topic, followed by the hint when there is one.\<close>

definition topicQuery :: "learningTopic \<Rightarrow> string" where
  "topicQuery topic =
     (if hint topic \<noteq> [] then name topic @ '' '' @ hint topic else name topic)"

text \<open>The body of the loop over the topics, for one topic.\<close>

definition learnTopic ::
  "'p env \<Rightarrow> 'p \<Rightarrow> learningTopic \<Rightarrow> app \<Rightarrow> nat \<Rightarrow> nat completion \<times> app" where
  "learnTopic env chatProvider topic a totalInsights =
     (let query = topicQuery topic
      in (case search env query 4 of
            Inl err \<Rightarrow> (Thrown err, a)
          | Inr results \<Rightarrow>
              if results = [] then (Returned totalInsights, a)
              else
                let topUrls = filter (\<lambda>u. u \<noteq> [])
                                (map url (slice0 (maxPagesPerTopic (selfLearningStore a)) results));
                    pages = readPages env topUrls;
                    rawInsights = distillInsights env (activeModel (consciousnessStore a))
                                    chatProvider (name topic) pages;
                    novelInsights = deduplicateInsights (memoryStore a) rawInsights;
                    (a', total') = saveInsights env (name topic) novelInsights a totalInsights
                in (Returned total', a')))"

fun learnTopics ::
  "'p env \<Rightarrow> 'p \<Rightarrow> learningTopic list \<Rightarrow> app \<Rightarrow> nat \<Rightarrow> nat completion \<times> app" where
  "learnTopics env chatProvider [] a totalInsights = (Returned totalInsights, a)"
| "learnTopics env chatProvider (topic # rest) a totalInsights =
     (case learnTopic env chatProvider topic a totalInsights of
        (Thrown err, a') \<Rightarrow> (Thrown err, a')
      | (Returned total', a') \<Rightarrow> learnTopics env chatProvider rest a' total')"

text \<open>The block guarded by \<^verbatim>\<open>try\<close>: the provider instance, then the loop.\<close>

definition learnAll :: "'p env \<Rightarrow> learningTopic list \<Rightarrow> app \<Rightarrow> nat completion \<times> app" where
  "learnAll env topicsToLearn a =
     (case getProviderInstance env (activeProvider (consciousnessStore a)) of
        Inl err \<Rightarrow> (Thrown err, a)
      | Inr chatProvider \<Rightarrow> learnTopics env chatProvider topicsToLearn a 0)"

definition startRunApp :: "'p env \<Rightarrow> string list \<Rightarrow> app \<Rightarrow> learningRun \<times> app" where
  "startRunApp env topicNames a =
     (let (run, l) = startRun (nanoid env (tick a)) (dateNow env (tick a)) topicNames
                       (selfLearningStore a)
      in (run, a\<lparr>selfLearningStore := l, tick := tick a + 1\<rparr>))"

definition completeRunApp :: "'p env \<Rightarrow> string \<Rightarrow> nat \<Rightarrow> app \<Rightarrow> app" where
  "completeRunApp env runId saved a =
     a\<lparr>selfLearningStore := completeRun (dateNow env (tick a)) runId saved (selfLearningStore a),
       tick := tick a + 1\<rparr>"

definition failRunApp :: "'p env \<Rightarrow> string \<Rightarrow> string \<Rightarrow> app \<Rightarrow> app" where
  "failRunApp env runId err a =
     a\<lparr>selfLearningStore := failRun (dateNow env (tick a)) runId err (selfLearningStore a),
       tick := tick a + 1\<rparr>"

text \<open>
  The message of the second pre-flight error; its dash and its arrow are written as their
  UTF-8 bytes.
\<close>

definition webSearchNotConfigured :: string where
  "webSearchNotConfigured =
     ''Web search is not configured '' @ [CHR 0xE2, CHR 0x80, CHR 0x93]
       @ '' enable it in Modules '' @ [CHR 0xE2, CHR 0x86, CHR 0x92] @ '' Web Search''"

definition runLearningLoop :: "'p env \<Rightarrow> app \<Rightarrow> nat completion \<times> app" where
  "runLearningLoop env a =
     (if \<not> learning_enabled (selfLearningStore a) \<or> isRunning (selfLearningStore a)
      then (Returned 0, a)
      else if activeProvider (consciousnessStore a) = [] \<or> activeModel (consciousnessStore a) = []
      then (Thrown (Error ''No active LLM provider configured''), a)
      else if \<not> search_configured (webSearchStore a)
      then (Thrown (Error webSearchNotConfigured), a)
      else
        let topicsToLearn = activeTopics (selfLearningStore a)
        in if topicsToLearn = []
           then (Thrown (Error ''No learning topics configured''), a)
           else
             let (run, a1) = startRunApp env (map name topicsToLearn) a
             in (case learnAll env topicsToLearn a1 of
                   (Returned totalInsights, a2) \<Rightarrow>
                     (Returned totalInsights, completeRunApp env (run_id run) totalInsights a2)
                 | (Thrown err, a2) \<Rightarrow>
                     (Thrown err, failRunApp env (run_id run) (message err) a2)))"

section \<open>The deduplication rule in the words of the specification\<close>

text \<open>
  The rule as the specification words it, for comparison with \<open>deduplicateInsights\<close>:
  the significant words of a candidate are its tokens longer than four characters, and the
  fraction is the matched significant words over all significant words; a candidate with
  no significant word passes.
\<close>

definition spec_isDuplicateOf :: "string list \<Rightarrow> string \<Rightarrow> bool" where
  "spec_isDuplicateOf words e =
     (let significant = filter (\<lambda>w. length w > 4) words;
          matched = filter (includesStr e) significant
      in significant \<noteq> [] \<and> real (length matched) / real (length significant) \<ge> 0.6)"

definition spec_dedupe :: "string list \<Rightarrow> string list \<Rightarrow> string list" where
  "spec_dedupe candidates existingContents =
     filter (\<lambda>candidate.
        \<not> list_ex (spec_isDuplicateOf (splitWhitespace (toLowerCase candidate)))
            (map toLowerCase existingContents)) candidates"

section \<open>The decay formula in the words of the specification\<close>

text \<open>
  The formula \<^verbatim>\<open>max(0, confidence - decayRate * ageWeeks)\<close> with
  \<^verbatim>\<open>ageWeeks = (now - updatedAt) / 1 week\<close>, read in the arithmetic of doubles: the result
  of each of the four operations is the double nearest to it. The week is 604800000
  milliseconds.
\<close>

definition spec_ageWeeks :: "int \<Rightarrow> memoryEntry \<Rightarrow> real" where
  "spec_ageWeeks now e = nearest (nearest (real_of_int (now - updatedAt e)) / 604800000)"

definition spec_decayed :: "int \<Rightarrow> real \<Rightarrow> memoryEntry \<Rightarrow> real" where
  "spec_decayed now decayRate e =
     max 0 (nearest (confidence e - nearest (decayRate * spec_ageWeeks now e)))"

section \<open>The shape of the ledger\<close>

text \<open>
  The number of records in status \<^verbatim>\<open>running\<close>, and the shape of a ledger that only
  \<open>runLearningLoop\<close> has written: no record behind the most recent one is still running.
\<close>

definition runningCount :: "learningRun list \<Rightarrow> nat" where
  "runningCount history = length (filter (\<lambda>r. status r = StatusRunning) history)"

definition settledTail :: "learningRun list \<Rightarrow> bool" where
  "settledTail history = list_all (\<lambda>r. status r \<noteq> StatusRunning) (tl history)"

section \<open>Fixtures\<close>

definition entryWith :: "string \<Rightarrow> string \<Rightarrow> real \<Rightarrow> int \<Rightarrow> memoryEntry" where
  "entryWith eid cont conf updated =
     \<lparr>entry_id = eid, content = cont, tags = [], source = Manual, confidence = conf,
      useCount = 0, createdAt = 0, updatedAt = updated\<rparr>"

definition storeOf :: "memoryEntry list \<Rightarrow> longTermMemoryStore" where
  "storeOf es = \<lparr>enabled = True, maxInjectedEntries = 10, entries = es\<rparr>"

definition pythonStore :: longTermMemoryStore where
  "pythonStore =
     storeOf [entryWith ''m1'' ''Python 3.13 removes the GIL in free-threaded builds'' 0.8 0]"

definition pythonCandidate :: string where
  "pythonCandidate = ''Python 3.13 removed GIL for free-threaded mode''"

definition scheduleStore :: "learningSchedule \<Rightarrow> int option \<Rightarrow> selfLearningStore" where
  "scheduleStore sch lastRun =
     \<lparr>learning_enabled = True, schedule = sch, topics = [], runHistory = [],
      lastRunAt = lastRun, maxPagesPerTopic = 2, verboseOutput = True\<rparr>"

text \<open>
  Stub collaborators: a page of 300 characters and a model that answers with a JSON array of
  one insight; the search is the argument. The search of \<open>stubEnv\<close> returns one result;
  the search of \<open>flakyEnv\<close> throws for every query but the one of \<open>rustTopic\<close>.
\<close>

definition tokioInsight :: string where
  "tokioInsight = ''Tokio is the most widely used async runtime for Rust.''"

definition rustTopic :: learningTopic where
  "rustTopic = \<lparr>topic_id = ''t1'', name = ''Rust async runtimes'', hint = [],
                 topic_enabled = True, topic_createdAt = 0\<rparr>"

definition goTopic :: learningTopic where
  "goTopic = \<lparr>topic_id = ''t2'', name = ''Go schedulers'', hint = [],
               topic_enabled = True, topic_createdAt = 0\<rparr>"

definition resultA :: webSearchResult where
  "resultA = \<lparr>title = ''A'', url = ''https://a'', snippet = []\<rparr>"

definition stubEnvWith :: "(string \<Rightarrow> nat \<Rightarrow> error + webSearchResult list) \<Rightarrow> unit env" where
  "stubEnvWith searchStub =
     \<lparr>dateNow = (\<lambda>k. 1000 + int k),
      nanoid = (\<lambda>k. replicate (Suc k) CHR ''i''),
      getProviderInstance = (\<lambda>_. Inr ()),
      search = searchStub,
      ofetch = (\<lambda>u. Inr (replicate 300 CHR ''x'')),
      matchTitle = (\<lambda>_. None),
      generateText = (\<lambda>provider model prompt.
                        Inr (Some (''['' @ quote @ tokioInsight @ quote @ '']''))),
      jsonParse = (\<lambda>txt. Inr [JsonString tokioInsight])\<rparr>"

definition stubEnv :: "unit env" where
  "stubEnv = stubEnvWith (\<lambda>query limit. Inr [resultA])"

definition flakyEnv :: "unit env" where
  "flakyEnv =
     stubEnvWith (\<lambda>query limit.
        if query = ''Rust async runtimes'' then Inr [resultA]
        else Inl (Error ''fetch failed''))"

definition appWith :: "learningTopic list \<Rightarrow> learningRun list \<Rightarrow> app" where
  "appWith ts history =
     \<lparr>selfLearningStore =
        \<lparr>learning_enabled = True, schedule = ManualSchedule, topics = ts,
         runHistory = history, lastRunAt = None, maxPagesPerTopic = 2, verboseOutput = True\<rparr>,
      memoryStore = storeOf [],
      webSearchStore = \<lparr>search_enabled = True, backend = Duckduckgo, searxngUrl = [],
                        braveApiKey = []\<rparr>,
      consciousnessStore = \<lparr>activeProvider = ''openai'', activeModel = ''gpt''\<rparr>,
      tick = 0\<rparr>"

definition runRecord :: "string \<Rightarrow> runStatus \<Rightarrow> learningRun" where
  "runRecord rid st =
     \<lparr>run_id = rid, startedAt = 0, completedAt = None, status = st, topicsProcessed = [],
      insightsSaved = 0, run_error = None\<rparr>"

text \<open>The state the first run of the stubs leaves behind.\<close>

definition tokioEntry :: "string \<Rightarrow> int \<Rightarrow> memoryEntry" where
  "tokioEntry eid now =
     \<lparr>entry_id = eid, content = tokioInsight, tags = [''Rust async runtimes'', ''self-learning''],
      source = SelfLearning, confidence = nearest 0.6, useCount = 0, createdAt = now,
      updatedAt = now\<rparr>"

definition afterFirstRun :: app where
  "afterFirstRun =
     \<lparr>selfLearningStore =
        \<lparr>learning_enabled = True, schedule = ManualSchedule, topics = [rustTopic],
         runHistory = [\<lparr>run_id = ''i'', startedAt = 1000, completedAt = Some 1002,
                        status = StatusDone, topicsProcessed = [''Rust async runtimes''],
                        insightsSaved = 1, run_error = None\<rparr>],
         lastRunAt = Some 1002, maxPagesPerTopic = 2, verboseOutput = True\<rparr>,
      memoryStore = storeOf [tokioEntry ''ii'' 1001],
      webSearchStore = \<lparr>search_enabled = True, backend = Duckduckgo, searxngUrl = [],
                        braveApiKey = []\<rparr>,
      consciousnessStore = \<lparr>activeProvider = ''openai'', activeModel = ''gpt''\<rparr>,
      tick = 3\<rparr>"

text \<open>The state a run of \<open>flakyEnv\<close> over \<open>rustTopic\<close> and \<open>goTopic\<close> leaves behind.\<close>

definition afterFailedRun :: app where
  "afterFailedRun =
     \<lparr>selfLearningStore =
        \<lparr>learning_enabled = True, schedule = ManualSchedule, topics = [rustTopic, goTopic],
         runHistory = [\<lparr>run_id = ''i'', startedAt = 1000, completedAt = Some 1002,
                        status = StatusError,
                        topicsProcessed = [''Rust async runtimes'', ''Go schedulers''],
                        insightsSaved = 0, run_error = Some ''fetch failed''\<rparr>],
         lastRunAt = None, maxPagesPerTopic = 2, verboseOutput = True\<rparr>,
      memoryStore = storeOf [tokioEntry ''ii'' 1001],
      webSearchStore = \<lparr>search_enabled = True, backend = Duckduckgo, searxngUrl = [],
                        braveApiKey = []\<rparr>,
      consciousnessStore = \<lparr>activeProvider = ''openai'', activeModel = ''gpt''\<rparr>,
      tick = 3\<rparr>"

definition ledger2 :: selfLearningStore where
  "ledger2 =
     (scheduleStore Daily (Some 7))
       \<lparr>runHistory := [runRecord ''r2'' StatusRunning, runRecord ''r1'' StatusDone]\<rparr>"

text \<open>
  Entries for the ranking: \<open>entryA\<close> and \<open>entryB\<close> tie on confidence and carry the given
  \<open>updatedAt\<close>; \<open>twinA\<close> and \<open>twinB\<close> tie on both.
\<close>

definition entryA :: "int \<Rightarrow> memoryEntry" where
  "entryA t = entryWith ''a'' ''fact A'' 0.9 t"

definition entryB :: "int \<Rightarrow> memoryEntry" where
  "entryB t = entryWith ''b'' ''fact B'' 0.9 t"

definition entryC :: "int \<Rightarrow> memoryEntry" where
  "entryC t = entryWith ''c'' ''fact C'' 0.5 t"

definition twinA :: memoryEntry where
  "twinA = entryWith ''a'' ''fact A'' 0.9 5"

definition twinB :: memoryEntry where
  "twinB = entryWith ''b'' ''fact B'' 0.9 5"

section \<open>Deduplication\<close>

lemma deduplicateInsights_subseq: "subseq (deduplicateInsights m insights) insights"
  by (simp add: deduplicateInsights_def)

lemma splitFrom_nonempty: "splitFrom cur s \<noteq> []"
  by (induction cur s rule: splitFrom.induct) auto

lemma splitWhitespace_nonempty: "splitWhitespace s \<noteq> []"
  by (simp add: splitWhitespace_def splitFrom_nonempty)

text \<open>
  The quotient of the source has every token of the candidate in its denominator: a
  candidate is dropped exactly when, for some stored content, the long tokens found in it
  make up three fifths of all tokens.
\<close>

lemma isDuplicateOf_iff:
  "words \<noteq> [] \<Longrightarrow>
   isDuplicateOf words e
     \<longleftrightarrow> 3 * length words \<le> 5 * length (filter (\<lambda>w. length w > 4 \<and> includesStr e w) words)"
proof -
  assume "words \<noteq> []"
  then have pos: "0 < real (length words)" by simp
  let ?k = "length (filter (\<lambda>w. length w > 4 \<and> includesStr e w) words)"
  have "isDuplicateOf words e \<longleftrightarrow> 0.6 * real (length words) \<le> real ?k"
    using pos by (simp add: isDuplicateOf_def Let_def pos_le_divide_eq)
  also have "\<dots> \<longleftrightarrow> real (3 * length words) \<le> real (5 * ?k)" by auto
  also have "\<dots> \<longleftrightarrow> 3 * length words \<le> 5 * ?k" by (rule of_nat_le_iff)
  finally show ?thesis .
qed

lemma no_significant_word_kept:
  assumes "insight \<in> set insights"
    and "\<forall>w \<in> set (splitWhitespace (toLowerCase insight)). length w \<le> 4"
  shows "insight \<in> set (deduplicateInsights m insights)"
proof -
  let ?ws = "splitWhitespace (toLowerCase insight)"
  have "filter (\<lambda>w. length w > 4 \<and> includesStr e w) ?ws = []" for e
    using assms(2) by (auto simp: filter_empty_conv)
  then have "\<not> isDuplicateOf ?ws e" for e
    using splitWhitespace_nonempty [of "toLowerCase insight"]
    by (simp add: isDuplicateOf_iff)
  with assms(1) show ?thesis
    by (simp add: deduplicateInsights_def Let_def list_ex_iff)
qed

text \<open>
  C1. The filter of the source divides the matched long words by the number of all tokens of
  the candidate, not by the number of its significant words. For the stored content
  ``Python 3.13 removes the GIL in free-threaded builds'' and the candidate
  ``Python 3.13 removed GIL for free-threaded mode'', two of the three significant words
  (python, free-threaded) occur in the content, but the candidate has seven tokens: the
  source keeps the candidate (2/7), where the rule of the specification (2/3) rejects it.
\<close>

theorem C1_python_candidate_kept:
  "deduplicateInsights pythonStore [pythonCandidate] = [pythonCandidate]
   \<and> spec_dedupe [pythonCandidate] (map content (entries pythonStore)) = []"
  by code_simp

section \<open>Schedule policy\<close>

text \<open>
  The time stamp of the last run is written by \<open>completeRun\<close> only, with the reading of
  the clock, and reset to \<^verbatim>\<open>null\<close>. The test \<^verbatim>\<open>!lastRunAt.value\<close> of the source holds for
  the number 0 as for \<^verbatim>\<open>null\<close>; from the end of the first week of the epoch on, the
  longest interval has elapsed since a stamp 0, and the two branches agree.
\<close>

lemma isDue_stamp_0:
  "isDue now (scheduleStore sched (Some 0)) \<longleftrightarrow> sched \<noteq> ManualSchedule"
  by (simp add: isDue_def scheduleStore_def)

text \<open>
  C8. At every clock reading of at least 604800000 (one week after the epoch), \<open>isDue\<close>
  is false whenever the schedule is manual; for the hourly, daily and weekly schedules it
  is true when \<open>lastRunAt\<close> is unset, and otherwise it is true exactly when
  \<open>now - lastRunAt\<close> is at least the interval of the schedule: one hour, 24 hours, seven
  days, in milliseconds.
\<close>

theorem C8_isDue:
  assumes "7 * 24 * 60 * 60 * 1000 \<le> now"
  shows "(schedule l = ManualSchedule \<longrightarrow> \<not> isDue now l)
   \<and> (schedule l \<noteq> ManualSchedule \<and> lastRunAt l = None \<longrightarrow> isDue now l)
   \<and> (lastRunAt l = Some t \<longrightarrow>
        (schedule l = Hourly \<longrightarrow> (isDue now l \<longleftrightarrow> now - t \<ge> 60 * 60 * 1000))
      \<and> (schedule l = Daily \<longrightarrow> (isDue now l \<longleftrightarrow> now - t \<ge> 24 * 60 * 60 * 1000))
      \<and> (schedule l = Weekly \<longrightarrow> (isDue now l \<longleftrightarrow> now - t \<ge> 7 * 24 * 60 * 60 * 1000)))"
  using assms by (auto simp: isDue_def intervals_def split: option.splits)

text \<open>
  The examples of the claim, at the clock reading 1700000000000: a daily schedule is not due
  23 hours after the last run and is due 25 hours after it; a manual schedule is not due,
  with or without a last run; a weekly schedule without a last run is due; an hourly
  schedule is due after a run stamped 0.
\<close>

theorem C8_isDue_witness:
  "7 * 24 * 60 * 60 * 1000 \<le> (1700000000000::int)
   \<and> \<not> isDue 1700000000000 (scheduleStore Daily (Some (1700000000000 - 23 * 3600000)))
   \<and> isDue 1700000000000 (scheduleStore Daily (Some (1700000000000 - 25 * 3600000)))
   \<and> \<not> isDue 1700000000000 (scheduleStore ManualSchedule (Some (1700000000000 - 25 * 3600000)))
   \<and> \<not> isDue 1700000000000 (scheduleStore ManualSchedule None)
   \<and> isDue 1700000000000 (scheduleStore Weekly None)
   \<and> isDue 1700000000000 (scheduleStore Hourly (Some 0))"
  using C8_isDue [where l = "scheduleStore Daily (Some (1700000000000 - 23 * 3600000))"
                    and now = 1700000000000 and t = "1700000000000 - 23 * 3600000"]
        C8_isDue [where l = "scheduleStore Daily (Some (1700000000000 - 25 * 3600000))"
                    and now = 1700000000000 and t = "1700000000000 - 25 * 3600000"]
        C8_isDue [where l = "scheduleStore ManualSchedule (Some (1700000000000 - 25 * 3600000))"
                    and now = 1700000000000 and t = 0]
        C8_isDue [where l = "scheduleStore ManualSchedule None" and now = 1700000000000 and t = 0]
        C8_isDue [where l = "scheduleStore Weekly None" and now = 1700000000000 and t = 0]
        C8_isDue [where l = "scheduleStore Hourly (Some 0)" and now = 1700000000000 and t = 0]
  by (simp add: scheduleStore_def)

section \<open>Rounding\<close>

lemma bitLength_bounds:
  "0 < n \<Longrightarrow> 2 ^ (bitLength n - 1) \<le> n \<and> n < 2 ^ bitLength n"
proof (induction n rule: bitLength.induct)
  case (1 n)
  show ?case
  proof (cases "n = 1")
    case True
    then show ?thesis by (simp add: bitLength.simps)
  next
    case False
    with "1.prems" have h: "0 < n div 2" by simp
    have s: "bitLength n = Suc (bitLength (n div 2))"
      using "1.prems" by (subst bitLength.simps) simp
    from "1.IH" "1.prems" h
    have ih: "2 ^ (bitLength (n div 2) - 1) \<le> n div 2" "n div 2 < 2 ^ bitLength (n div 2)"
      by simp_all
    have pos: "0 < bitLength (n div 2)"
      using h by (subst bitLength.simps) simp
    then have e: "(2::int) ^ bitLength (n div 2) = 2 * 2 ^ (bitLength (n div 2) - 1)"
      by (cases "bitLength (n div 2)") simp_all
    have "2 * 2 ^ (bitLength (n div 2) - 1) \<le> 2 * (n div 2)" using ih(1) by simp
    also have "\<dots> \<le> n" by simp
    finally have lo: "2 ^ (bitLength n - 1) \<le> n" by (simp add: s e)
    have "n < 2 * (n div 2) + 2" by presburger
    also have "\<dots> \<le> 2 * 2 ^ bitLength (n div 2)" using ih(2) by simp
    finally have "n < 2 ^ bitLength n" by (simp add: s)
    with lo show ?thesis by simp
  qed
qed

lemma bitLength_eq:
  assumes "2 ^ k \<le> n" "n < 2 ^ Suc k"
  shows "bitLength n = Suc k"
proof -
  have "(0::int) < 2 ^ k" by simp
  with assms(1) have pos: "0 < n" by linarith
  from bitLength_bounds [OF pos]
  have b: "2 ^ (bitLength n - 1) \<le> n" "n < 2 ^ bitLength n" by simp_all
  have "(2::int) ^ k < 2 ^ bitLength n" using assms(1) b(2) by linarith
  then have 1: "k < bitLength n" by (rule power_less_imp_less_exp [rotated]) simp
  have "(2::int) ^ (bitLength n - 1) < 2 ^ Suc k" using assms(2) b(1) by linarith
  then have 2: "bitLength n - 1 < Suc k" by (rule power_less_imp_less_exp [rotated]) simp
  from 1 2 show ?thesis by simp
qed

text \<open>
  A number whose magnitude, scaled by \<open>2 ^ n\<close>, lies in the range of the significands of
  53 bits is rounded at that scale.
\<close>

lemma nearest_scaled:
  assumes n: "n \<le> denormalExponent" and lo: "2 ^ 52 \<le> \<bar>x\<bar> * 2 ^ n"
    and hi: "\<bar>x\<bar> * 2 ^ n < 2 ^ 53"
  shows "nearest x = (if x < 0 then - (of_int (roundHalfEven (\<bar>x\<bar> * 2 ^ n)) / 2 ^ n)
                      else of_int (roundHalfEven (\<bar>x\<bar> * 2 ^ n)) / 2 ^ n)"
proof -
  define m where "m = denormalExponent - n"
  have nm: "n + m = denormalExponent" using n by (simp add: m_def)
  define y where "y = \<bar>x\<bar> * 2 ^ denormalExponent"
  have y: "y = \<bar>x\<bar> * 2 ^ n * 2 ^ m"
    unfolding y_def nm [symmetric] by (simp add: power_add)
  have ylo: "2 ^ (52 + m) \<le> y"
    unfolding y power_add using lo by (simp add: mult_right_mono)
  have yhi: "y < 2 ^ (53 + m)"
    unfolding y power_add using hi by (simp add: mult_strict_right_mono)
  have "(2::real) ^ (52 + m) = of_int (2 ^ (52 + m))" by simp
  with ylo have flo: "2 ^ (52 + m) \<le> \<lfloor>y\<rfloor>" by (simp only: le_floor_iff)
  have "of_int \<lfloor>y\<rfloor> \<le> y" by simp
  with yhi have "of_int \<lfloor>y\<rfloor> < (2::real) ^ (53 + m)" by linarith
  then have "of_int \<lfloor>y\<rfloor> < (of_int (2 ^ (53 + m)) :: real)" by simp
  then have fhi: "\<lfloor>y\<rfloor> < 2 ^ (53 + m)" by (simp only: of_int_less_iff)
  have "bitLength \<lfloor>y\<rfloor> = Suc (52 + m)"
    using flo fhi by (intro bitLength_eq) simp_all
  then have shift: "bitLength \<lfloor>y\<rfloor> - 53 = m" by simp
  have q: "y / 2 ^ m = \<bar>x\<bar> * 2 ^ n" unfolding y by simp
  have "(2::real) ^ denormalExponent = 2 ^ n * 2 ^ m"
    unfolding nm [symmetric] by (simp add: power_add)
  then have d: "of_int k * 2 ^ m / (2::real) ^ denormalExponent = of_int k / 2 ^ n" for k
    by simp
  show ?thesis
    unfolding nearest_def Let_def y_def [symmetric] shift q d by simp
qed

lemma nearest_value:
  assumes "n \<le> denormalExponent" "0 \<le> x" "2 ^ 52 \<le> x * 2 ^ n" "x * 2 ^ n < 2 ^ 53"
    and "roundHalfEven (x * 2 ^ n) = k"
  shows "nearest x = of_int k / 2 ^ n"
  using nearest_scaled [of n x] assms by simp

lemma roundHalfEven_0: "roundHalfEven 0 = 0"
  by (simp add: roundHalfEven_def)

lemma nearest_0: "nearest 0 = 0"
proof -
  have "bitLength 0 = 0" by (subst bitLength.simps) simp
  then show ?thesis by (simp add: nearest_def Let_def roundHalfEven_0)
qed

lemma nearest_minus: "nearest (- x) = - nearest x"
proof (cases "x = 0")
  case True
  then show ?thesis by (simp add: nearest_0)
next
  case False
  then show ?thesis by (auto simp: nearest_def Let_def)
qed

lemma toDouble_value:
  assumes "nearest x = r" "- (2 ^ 1024) < r" "r < 2 ^ 1024"
  shows "toDouble x = Finite r"
  using assms by (simp add: toDouble_def Let_def)

lemma roundHalfEven_bounds:
  "of_int (roundHalfEven z) \<le> z + 1" "0 \<le> z \<Longrightarrow> 0 \<le> roundHalfEven z"
proof -
  have "roundHalfEven z \<le> \<lfloor>z\<rfloor> + 1"
    by (simp add: roundHalfEven_def Let_def)
  then have "(of_int (roundHalfEven z) :: real) \<le> of_int (\<lfloor>z\<rfloor> + 1)"
    by (simp only: of_int_le_iff)
  then have a: "(of_int (roundHalfEven z) :: real) \<le> of_int \<lfloor>z\<rfloor> + 1" by simp
  have b: "of_int \<lfloor>z\<rfloor> \<le> z" by simp
  from a b show "of_int (roundHalfEven z) \<le> z + 1" by linarith
  show "0 \<le> z \<Longrightarrow> 0 \<le> roundHalfEven z"
    by (simp add: roundHalfEven_def Let_def)
qed

text \<open>A crude bound: rounding at most doubles a magnitude, up to the least double.\<close>

lemma nearest_abs_le: "\<bar>nearest x\<bar> \<le> 2 * \<bar>x\<bar> + 1"
proof -
  define y where "y = \<bar>x\<bar> * 2 ^ denormalExponent"
  define s where "s = bitLength \<lfloor>y\<rfloor> - 53"
  define r :: real
    where "r = of_int (roundHalfEven (y / 2 ^ s)) * 2 ^ s / 2 ^ denormalExponent"
  have y0: "0 \<le> y" by (simp add: y_def)
  have p: "2 ^ s \<le> 1 + y"
  proof (cases "\<lfloor>y\<rfloor> \<le> 0")
    case True
    then have "bitLength \<lfloor>y\<rfloor> = 0" by (subst bitLength.simps) simp
    then show ?thesis using y0 by (simp add: s_def)
  next
    case False
    then have "2 ^ (bitLength \<lfloor>y\<rfloor> - 1) \<le> \<lfloor>y\<rfloor>"
      using bitLength_bounds [of "\<lfloor>y\<rfloor>"] by simp
    moreover have "(2::int) ^ s \<le> 2 ^ (bitLength \<lfloor>y\<rfloor> - 1)"
      by (rule power_increasing) (simp_all add: s_def)
    ultimately have "(2::int) ^ s \<le> \<lfloor>y\<rfloor>" by linarith
    then have "of_int ((2::int) ^ s) \<le> (of_int \<lfloor>y\<rfloor> :: real)" by (simp only: of_int_le_iff)
    moreover have "of_int \<lfloor>y\<rfloor> \<le> y" by simp
    moreover have "(of_int ((2::int) ^ s) :: real) = 2 ^ s" by simp
    ultimately show ?thesis by linarith
  qed
  have z0: "0 \<le> y / 2 ^ s" using y0 by simp
  have k0: "0 \<le> roundHalfEven (y / 2 ^ s)" using z0 by (rule roundHalfEven_bounds)
  have k1: "of_int (roundHalfEven (y / 2 ^ s)) \<le> y / 2 ^ s + 1" by (rule roundHalfEven_bounds)
  have r0: "0 \<le> r" using k0 by (simp add: r_def)
  have "of_int (roundHalfEven (y / 2 ^ s)) * 2 ^ s \<le> (y / 2 ^ s + 1) * 2 ^ s"
    using k1 by (simp add: mult_right_mono)
  also have "\<dots> = y + 2 ^ s" by (simp add: field_simps)
  also have "\<dots> \<le> 2 * y + 1" using p by simp
  finally have "r \<le> (2 * y + 1) / 2 ^ denormalExponent"
    by (simp add: r_def divide_right_mono)
  also have "\<dots> = 2 * \<bar>x\<bar> + 1 / 2 ^ denormalExponent"
    by (simp add: y_def field_simps)
  also have "\<dots> \<le> 2 * \<bar>x\<bar> + 1" by (simp add: divide_le_eq_1)
  finally have r1: "r \<le> 2 * \<bar>x\<bar> + 1" .
  have "\<bar>nearest x\<bar> = r"
    using r0 by (simp add: nearest_def Let_def y_def [symmetric] s_def [symmetric] r_def [symmetric])
  with r1 show ?thesis by simp
qed

lemma toDouble_scaled:
  assumes "n \<le> denormalExponent" "0 \<le> x" "2 ^ 52 \<le> x * 2 ^ n" "x * 2 ^ n < 2 ^ 53"
    and "roundHalfEven (x * 2 ^ n) = k"
  shows "toDouble x = Finite (of_int k / 2 ^ n)"
proof -
  have v: "nearest x = of_int k / 2 ^ n" using assms by (rule nearest_value)
  have "of_int k \<le> x * 2 ^ n + 1" using roundHalfEven_bounds(1) [of "x * 2 ^ n"] assms(5) by simp
  with assms(4) have k1: "of_int k < (2::real) ^ 53 + 1" by linarith
  have "0 \<le> x * 2 ^ n" using assms(2) by simp
  then have "0 \<le> k" using roundHalfEven_bounds(2) [of "x * 2 ^ n"] assms(5) by simp
  then have k0: "(0::real) \<le> of_int k" by simp
  have "of_int k / (2::real) ^ n \<le> of_int k" using k0 by (simp add: divide_le_eq mult_le_cancel_left1)
  with k1 have "of_int k / (2::real) ^ n < 2 ^ 1024" by simp
  moreover have "0 \<le> of_int k / (2::real) ^ n" using k0 by simp
  ultimately show ?thesis by (simp add: toDouble_def Let_def v)
qed

lemma toDouble_nearest:
  assumes "\<bar>x\<bar> \<le> 2 ^ 1002"
  shows "toDouble x = Finite (nearest x)"
proof -
  have "\<bar>nearest x\<bar> \<le> 2 * \<bar>x\<bar> + 1" by (rule nearest_abs_le)
  with assms have "\<bar>nearest x\<bar> < 2 ^ 1024" by simp
  then show ?thesis by (auto simp: toDouble_def Let_def)
qed

lemma those_map_Some:
  "(\<And>x. x \<in> set xs \<Longrightarrow> f x = Some (g x)) \<Longrightarrow> those (map f xs) = Some (map g xs)"
  by (induction xs) simp_all

section \<open>Decay and pruning\<close>

text \<open>The doubles of the literals and of the ages of the examples.\<close>

lemma double_literals:
  "nearest 0.02 = 5764607523034235 / 2 ^ 58"
  "nearest 0.04 = 5764607523034235 / 2 ^ 57"
  "nearest 0.05 = 7205759403792794 / 2 ^ 57"
  "nearest 0.1 = 7205759403792794 / 2 ^ 56"
  "nearest 0.6 = 5404319552844595 / 2 ^ 53"
proof -
  show "nearest 0.02 = 5764607523034235 / 2 ^ 58"
    using nearest_value [where n = 58 and x = "0.02" and k = 5764607523034235]
    by (simp add: denormalExponent_def roundHalfEven_def Let_def)
  show "nearest 0.04 = 5764607523034235 / 2 ^ 57"
    using nearest_value [where n = 57 and x = "0.04" and k = 5764607523034235]
    by (simp add: denormalExponent_def roundHalfEven_def Let_def)
  show "nearest 0.05 = 7205759403792794 / 2 ^ 57"
    using nearest_value [where n = 57 and x = "0.05" and k = 7205759403792794]
    by (simp add: denormalExponent_def roundHalfEven_def Let_def)
  show "nearest 0.1 = 7205759403792794 / 2 ^ 56"
    using nearest_value [where n = 56 and x = "0.1" and k = 7205759403792794]
    by (simp add: denormalExponent_def roundHalfEven_def Let_def)
  show "nearest 0.6 = 5404319552844595 / 2 ^ 53"
    using nearest_value [where n = 53 and x = "0.6" and k = 5404319552844595]
    by (simp add: denormalExponent_def roundHalfEven_def Let_def)
qed

lemma double_fractions:
  "nearest (1 / 50) = 5764607523034235 / 2 ^ 58"
  "nearest (1 / 25) = 5764607523034235 / 2 ^ 57"
  "nearest (1 / 20) = 7205759403792794 / 2 ^ 57"
  "nearest (1 / 10) = 7205759403792794 / 2 ^ 56"
  "nearest (3 / 5) = 5404319552844595 / 2 ^ 53"
  using double_literals by simp_all

lemma confidence_entryWith: "confidence (entryWith eid cont c t) = c"
  by (simp add: entryWith_def)

lemma updatedAt_entryWith: "updatedAt (entryWith eid cont c t) = t"
  by (simp add: entryWith_def)

lemma double_ages:
  "nearest 3 = 3" "nearest 1814400000 = 1814400000"
  "nearest (55 / 2) = 55 / 2" "nearest 16632000000 = 16632000000"
proof -
  show "nearest 3 = 3"
    using nearest_value [where n = 51 and x = 3 and k = "3 * 2 ^ 51"]
    by (simp add: denormalExponent_def roundHalfEven_def Let_def)
  show "nearest 1814400000 = 1814400000"
    using nearest_value [where n = 22 and x = 1814400000 and k = "1814400000 * 2 ^ 22"]
    by (simp add: denormalExponent_def roundHalfEven_def Let_def)
  show "nearest (55 / 2) = 55 / 2"
    using nearest_value [where n = 48 and x = "55 / 2" and k = "55 * 2 ^ 47"]
    by (simp add: denormalExponent_def roundHalfEven_def Let_def)
  show "nearest 16632000000 = 16632000000"
    using nearest_value [where n = 19 and x = 16632000000 and k = "16632000000 * 2 ^ 19"]
    by (simp add: denormalExponent_def roundHalfEven_def Let_def)
qed

text \<open>
  An entry at 0.1, three weeks old, at rate 0.02: the product is the double 0.06, and the
  difference is one unit in the last place above the double 0.04.
\<close>

lemma decayed_three_weeks:
  "decayed (t + 3 * 604800000) (nearest 0.02) (entryWith eid cont (nearest 0.1) t)
     = Finite (5764607523034236 / 2 ^ 57)"
proof -
  have age: "ageWeeks (t + 3 * 604800000) (entryWith eid cont (nearest 0.1) t) = 3"
    by (simp add: ageWeeks_def oneWeekMs_def updatedAt_entryWith double_ages)
  have prod: "toDouble (nearest 0.02 * 3) = Finite (of_int 8646911284551352 / 2 ^ 57)"
    by (rule toDouble_scaled)
       (simp_all add: double_fractions denormalExponent_def roundHalfEven_def Let_def)
  have diff: "toDouble (nearest 0.1 - of_int 8646911284551352 / 2 ^ 57)
                = Finite (of_int 5764607523034236 / 2 ^ 57)"
    by (rule toDouble_scaled)
       (simp_all add: double_fractions denormalExponent_def roundHalfEven_def Let_def)
  show ?thesis
    unfolding decayed_def age confidence_entryWith prod using diff by simp
qed

text \<open>
  An entry at 0.6, 27.5 weeks old, at rate 0.02: the product is the double 0.55, a little
  above the exact product, and the difference is below the double 0.05.
\<close>

lemma decayed_long:
  "decayed 16632000000 (nearest 0.02) (entryWith eid cont (nearest 0.6) 0)
     = Finite (7205759403792784 / 2 ^ 57)"
proof -
  have age: "ageWeeks 16632000000 (entryWith eid cont (nearest 0.6) 0) = 55 / 2"
    by (simp add: ageWeeks_def oneWeekMs_def updatedAt_entryWith double_ages)
  have prod: "toDouble (nearest 0.02 * (55 / 2)) = Finite (of_int 4953959590107546 / 2 ^ 53)"
    by (rule toDouble_scaled)
       (simp_all add: double_fractions denormalExponent_def roundHalfEven_def Let_def)
  have diff: "toDouble (nearest 0.6 - of_int 4953959590107546 / 2 ^ 53)
                = Finite (of_int 7205759403792784 / 2 ^ 57)"
    by (rule toDouble_scaled)
       (simp_all add: double_fractions denormalExponent_def roundHalfEven_def Let_def)
  show ?thesis
    unfolding decayed_def age confidence_entryWith prod using diff by simp
qed

lemma decayed_fresh:
  "decayed t (nearest 0.02) (entryWith eid cont (nearest 0.05) t) = Finite (nearest 0.05)"
proof -
  have age: "ageWeeks t (entryWith eid cont (nearest 0.05) t) = 0"
    by (simp add: ageWeeks_def updatedAt_entryWith nearest_0)
  have zero: "toDouble 0 = Finite 0"
    by (simp add: toDouble_def nearest_0)
  have same: "toDouble (nearest 0.05) = Finite (of_int 7205759403792794 / 2 ^ 57)"
    by (rule toDouble_scaled)
       (simp_all add: double_fractions denormalExponent_def roundHalfEven_def Let_def)
  show ?thesis
    unfolding decayed_def age confidence_entryWith using same
    by (simp add: zero double_fractions)
qed

text \<open>
  Away from the overflow of doubles the result of the callback is finite, and is the
  formula with each operation rounded.
\<close>

lemma decayed_no_overflow:
  assumes c: "\<bar>confidence e\<bar> \<le> 2 ^ 900" and r: "\<bar>decayRate\<bar> \<le> 2 ^ 900"
    and k: "\<bar>now - updatedAt e\<bar> \<le> 2 ^ 60"
  shows "mathMax0 (decayed now decayRate e) = Finite (spec_decayed now decayRate e)"
proof -
  define d where "d = nearest (real_of_int (now - updatedAt e))"
  define a where "a = nearest (d / 604800000)"
  define p where "p = nearest (decayRate * a)"
  have "\<bar>real_of_int (now - updatedAt e)\<bar> \<le> 2 ^ 60"
    using k by (simp only: of_int_abs [symmetric]) (simp add: of_int_le_iff [symmetric] del: of_int_abs)
  moreover have "\<bar>d\<bar> \<le> 2 * \<bar>real_of_int (now - updatedAt e)\<bar> + 1"
    unfolding d_def by (rule nearest_abs_le)
  ultimately have d: "\<bar>d\<bar> \<le> 2 ^ 62" by simp
  have "\<bar>d / 604800000\<bar> \<le> \<bar>d\<bar>" by simp
  moreover have "\<bar>a\<bar> \<le> 2 * \<bar>d / 604800000\<bar> + 1"
    unfolding a_def by (rule nearest_abs_le)
  ultimately have a: "\<bar>a\<bar> \<le> 2 ^ 64" using d by simp
  have "\<bar>decayRate * a\<bar> = \<bar>decayRate\<bar> * \<bar>a\<bar>" by (rule abs_mult)
  also have "\<dots> \<le> 2 ^ 900 * 2 ^ 64" using r a by (intro mult_mono) simp_all
  finally have ra: "\<bar>decayRate * a\<bar> \<le> 2 ^ 964" by simp
  then have t1: "toDouble (decayRate * a) = Finite p"
    unfolding p_def by (intro toDouble_nearest) simp
  have "\<bar>p\<bar> \<le> 2 * \<bar>decayRate * a\<bar> + 1" unfolding p_def by (rule nearest_abs_le)
  with ra have "\<bar>p\<bar> \<le> 2 ^ 966" by simp
  with c have "\<bar>confidence e - p\<bar> \<le> 2 ^ 1002" by simp
  then have t2: "toDouble (confidence e - p) = Finite (nearest (confidence e - p))"
    by (rule toDouble_nearest)
  have age: "ageWeeks now e = a"
    by (simp add: ageWeeks_def oneWeekMs_def a_def d_def)
  have spec: "spec_decayed now decayRate e = max 0 (nearest (confidence e - p))"
    by (simp add: spec_decayed_def spec_ageWeeks_def p_def a_def d_def)
  show ?thesis
    unfolding decayed_def age t1 spec by (simp add: t2)
qed

lemma decayEntry_no_overflow:
  assumes "\<bar>confidence e\<bar> \<le> 2 ^ 900" "\<bar>decayRate\<bar> \<le> 2 ^ 900"
    and "\<bar>now - updatedAt e\<bar> \<le> 2 ^ 60"
  shows "decayEntry now decayRate e = Some (e\<lparr>confidence := spec_decayed now decayRate e\<rparr>)"
  unfolding decayEntry_def decayed_no_overflow [OF assms] by simp

lemma decayEntry_three_weeks:
  "decayEntry (t + 3 * 604800000) (nearest 0.02) (entryWith eid cont (nearest 0.1) t)
     = Some (entryWith eid cont (5764607523034236 / 2 ^ 57) t)"
  unfolding decayEntry_def decayed_three_weeks by (simp add: entryWith_def)

lemma decayEntry_long:
  "decayEntry 16632000000 (nearest 0.02) (entryWith eid cont (nearest 0.6) 0)
     = Some (entryWith eid cont (7205759403792784 / 2 ^ 57) 0)"
  unfolding decayEntry_def decayed_long by (simp add: entryWith_def)

lemma decayEntry_fresh:
  "decayEntry t (nearest 0.02) (entryWith eid cont (nearest 0.05) t)
     = Some (entryWith eid cont (nearest 0.05) t)"
  unfolding decayEntry_def decayed_fresh by (simp add: entryWith_def double_fractions)

lemma entries_storeOf: "entries (storeOf es) = es"
  by (simp add: storeOf_def)

lemma decayConfidence_singleton:
  assumes "decayEntry now decayRate e = Some e'"
  shows "decayConfidence now decayRate pruneBelow (storeOf [e])
           = Some (storeOf (if confidence e' < pruneBelow then [] else [e']))"
  using assms by (simp add: decayConfidence_def storeOf_def)

text \<open>
  C7, as stated, fails in its first example. With the rate 0.02 and an entry at 0.10
  that is three weeks old, the product is the double 0.06 and the difference is the double
  5764607523034236 / 2 ^ 57, printed 0.04000000000000001: one unit in the last place above
  the double 0.04, and neither that double nor the number 0.04, nor the value of the
  formula without rounding. Read at the decimal numbers, the formula keeps an entry at 0.6
  that is 27.5 weeks old (0.6 - 0.02 * 27.5 is 0.05); the code computes a difference below
  the double 0.05 and removes the entry.
\<close>

theorem C7_rounding_counterexample:
  "decayEntry (3 * 604800000) (nearest 0.02) (entryWith ''a'' ''fact'' (nearest 0.1) 0)
     = Some (entryWith ''a'' ''fact'' (5764607523034236 / 2 ^ 57) 0)
   \<and> nearest 0.04 = 5764607523034235 / 2 ^ 57
   \<and> (5764607523034236 / 2 ^ 57 :: real) \<noteq> 0.04
   \<and> (5764607523034236 / 2 ^ 57 :: real) \<noteq> max 0 (nearest 0.1 - nearest 0.02 * 3)
   \<and> decayConfidence 16632000000 (nearest 0.02) (nearest 0.05)
         (storeOf [entryWith ''a'' ''fact'' (nearest 0.6) 0]) = Some (storeOf [])
   \<and> \<not> max 0 (0.6 - 0.02 * (16632000000 / 604800000)) < (0.05::real)"
proof -
  have 1: "decayEntry (3 * 604800000) (nearest 0.02) (entryWith ''a'' ''fact'' (nearest 0.1) 0)
     = Some (entryWith ''a'' ''fact'' (5764607523034236 / 2 ^ 57) 0)"
    using decayEntry_three_weeks [where t = 0] by simp
  have 2: "(5764607523034236 / 2 ^ 57 :: real) \<noteq> max 0 (nearest 0.1 - nearest 0.02 * 3)"
    by (simp add: double_fractions)
  have 3: "decayConfidence 16632000000 (nearest 0.02) (nearest 0.05)
         (storeOf [entryWith ''a'' ''fact'' (nearest 0.6) 0]) = Some (storeOf [])"
    unfolding decayConfidence_singleton [OF decayEntry_long]
    by (simp add: confidence_entryWith double_fractions)
  show ?thesis
    using 1 2 3 double_literals(2) by simp
qed

text \<open>
  C7, amended. The formula is computed in the arithmetic of doubles. For a rate and
  confidences of magnitude at most 2 ^ 900 and ages of at most 2 ^ 60 milliseconds, far
  from the overflow of doubles, \<open>decayConfidence\<close> sets the confidence of every entry to
  \<open>max 0 (confidence - decayRate * ageWeeks)\<close>, each operation rounded to the nearest
  double, where \<open>ageWeeks\<close> is \<open>now - updatedAt\<close> over the 604800000 milliseconds of a week,
  and keeps, in their order and with every other field as it was, exactly the entries whose
  new confidence is not strictly below \<open>pruneBelow\<close>; the flags of the store are
  untouched. With the doubles of the rate 0.02 and of the threshold 0.05, an entry at the
  double of 0.10 aged three weeks decays to 5764607523034236 / 2 ^ 57, that is
  0.04000000000000001, between the doubles of 0.04 and 0.05, and is removed; an entry at the
  double of 0.05 of age zero stays there and is kept. The result is a function of the clock
  reading \<open>now\<close> and the store.
\<close>

theorem C7_decayConfidence:
  "((\<forall>e \<in> set (entries m). \<bar>confidence e\<bar> \<le> 2 ^ 900 \<and> \<bar>now - updatedAt e\<bar> \<le> 2 ^ 60)
      \<and> \<bar>decayRate\<bar> \<le> 2 ^ 900 \<longrightarrow>
    decayConfidence now decayRate pruneBelow m =
      Some (m\<lparr>entries :=
              map (\<lambda>e. e\<lparr>confidence := spec_decayed now decayRate e\<rparr>)
                (filter (\<lambda>e. \<not> spec_decayed now decayRate e < pruneBelow) (entries m))\<rparr>))
   \<and> decayEntry (t + 3 * 604800000) (nearest 0.02) (entryWith ''a'' ''fact'' (nearest 0.1) t)
       = Some (entryWith ''a'' ''fact'' (5764607523034236 / 2 ^ 57) t)
   \<and> nearest 0.04 < 5764607523034236 / 2 ^ 57
   \<and> 5764607523034236 / 2 ^ 57 < nearest 0.05
   \<and> decayConfidence (t + 3 * 604800000) (nearest 0.02) (nearest 0.05)
         (storeOf [entryWith ''a'' ''fact'' (nearest 0.1) t]) = Some (storeOf [])
   \<and> decayConfidence t (nearest 0.02) (nearest 0.05)
         (storeOf [entryWith ''b'' ''fact'' (nearest 0.05) t])
       = Some (storeOf [entryWith ''b'' ''fact'' (nearest 0.05) t])"
proof -
  have 1: "decayConfidence now decayRate pruneBelow m =
      Some (m\<lparr>entries :=
              map (\<lambda>e. e\<lparr>confidence := spec_decayed now decayRate e\<rparr>)
                (filter (\<lambda>e. \<not> spec_decayed now decayRate e < pruneBelow) (entries m))\<rparr>)"
    if b: "\<forall>e \<in> set (entries m). \<bar>confidence e\<bar> \<le> 2 ^ 900 \<and> \<bar>now - updatedAt e\<bar> \<le> 2 ^ 60"
      and r: "\<bar>decayRate\<bar> \<le> 2 ^ 900"
  proof -
    have "those (map (decayEntry now decayRate) (entries m))
            = Some (map (\<lambda>e. e\<lparr>confidence := spec_decayed now decayRate e\<rparr>) (entries m))"
      using b r by (intro those_map_Some decayEntry_no_overflow) simp_all
    then show ?thesis
      by (simp add: decayConfidence_def filter_map o_def not_less)
  qed
  have 2: "nearest 0.04 < 5764607523034236 / 2 ^ 57" "5764607523034236 / 2 ^ 57 < nearest 0.05"
    by (simp_all add: double_fractions)
  have 3: "decayConfidence (t + 3 * 604800000) (nearest 0.02) (nearest 0.05)
         (storeOf [entryWith ''a'' ''fact'' (nearest 0.1) t]) = Some (storeOf [])"
    unfolding decayConfidence_singleton [OF decayEntry_three_weeks]
    by (simp add: confidence_entryWith double_fractions)
  have 4: "decayConfidence t (nearest 0.02) (nearest 0.05)
         (storeOf [entryWith ''b'' ''fact'' (nearest 0.05) t])
       = Some (storeOf [entryWith ''b'' ''fact'' (nearest 0.05) t])"
    unfolding decayConfidence_singleton [OF decayEntry_fresh]
    by (simp add: confidence_entryWith)
  from 1 2 3 4 decayEntry_three_weeks [where t = t and eid = "''a''" and cont = "''fact''"]
  show ?thesis by blast
qed

text \<open>
  The theorem at a store of two entries, read three weeks after the first was written and
  at the moment the second was: both are within the bounds, the first decays to
  0.04000000000000001 and is removed, the second is kept as it is.
\<close>

theorem C7_decayConfidence_witness:
  "list_all (\<lambda>e. \<bar>confidence e\<bar> \<le> 2 ^ 900 \<and> \<bar>1814400000 - updatedAt e\<bar> \<le> 2 ^ 60)
     [entryWith ''a'' ''fact'' (nearest 0.1) 0, entryWith ''b'' ''fact'' (nearest 0.05) 1814400000]
   \<and> \<bar>nearest 0.02\<bar> \<le> 2 ^ 900
   \<and> spec_decayed 1814400000 (nearest 0.02) (entryWith ''a'' ''fact'' (nearest 0.1) 0)
       = 5764607523034236 / 2 ^ 57
   \<and> spec_decayed 1814400000 (nearest 0.02) (entryWith ''b'' ''fact'' (nearest 0.05) 1814400000)
       = nearest 0.05
   \<and> decayConfidence 1814400000 (nearest 0.02) (nearest 0.05)
         (storeOf [entryWith ''a'' ''fact'' (nearest 0.1) 0,
                   entryWith ''b'' ''fact'' (nearest 0.05) 1814400000])
       = Some (storeOf [entryWith ''b'' ''fact'' (nearest 0.05) 1814400000])"
proof -
  let ?a = "entryWith ''a'' ''fact'' (nearest 0.1) 0"
  let ?b = "entryWith ''b'' ''fact'' (nearest 0.05) 1814400000"
  have h: "list_all (\<lambda>e. \<bar>confidence e\<bar> \<le> 2 ^ 900 \<and> \<bar>1814400000 - updatedAt e\<bar> \<le> 2 ^ 60) [?a, ?b]"
    "\<bar>nearest 0.02\<bar> \<le> 2 ^ 900"
    by (simp_all add: confidence_entryWith updatedAt_entryWith double_fractions)
  have a: "spec_decayed 1814400000 (nearest 0.02) ?a = 5764607523034236 / 2 ^ 57"
    using decayEntry_three_weeks [where t = 0 and eid = "''a''" and cont = "''fact''"]
      decayEntry_no_overflow [where e = ?a and now = 1814400000 and decayRate = "nearest 0.02"] h
    by (simp add: confidence_entryWith updatedAt_entryWith) (simp add: entryWith_def)
  have b: "spec_decayed 1814400000 (nearest 0.02) ?b = nearest 0.05"
    using decayEntry_fresh [where t = 1814400000 and eid = "''b''" and cont = "''fact''"]
      decayEntry_no_overflow [where e = ?b and now = 1814400000 and decayRate = "nearest 0.02"] h
    by (simp add: confidence_entryWith updatedAt_entryWith) (simp add: entryWith_def)
  have c: "(\<forall>e \<in> set (entries (storeOf [?a, ?b])).
             \<bar>confidence e\<bar> \<le> 2 ^ 900 \<and> \<bar>1814400000 - updatedAt e\<bar> \<le> 2 ^ 60)
           \<and> \<bar>nearest 0.02\<bar> \<le> 2 ^ 900"
    using h by (simp add: entries_storeOf)
  have f: "filter (\<lambda>e. \<not> spec_decayed 1814400000 (nearest 0.02) e < nearest 0.05) [?a, ?b] = [?b]"
    unfolding filter.simps a b by (simp add: double_fractions)
  have g: "map (\<lambda>e. e\<lparr>confidence := spec_decayed 1814400000 (nearest 0.02) e\<rparr>) [?b] = [?b]"
    unfolding list.map b by (simp add: entryWith_def)
  from C7_decayConfidence [where m = "storeOf [?a, ?b]" and now = 1814400000
      and decayRate = "nearest 0.02" and pruneBelow = "nearest 0.05", THEN conjunct1, THEN mp, OF c]
  have "decayConfidence 1814400000 (nearest 0.02) (nearest 0.05) (storeOf [?a, ?b])
          = Some (storeOf [?b])"
    unfolding entries_storeOf f g by (simp add: storeOf_def)
  with h a b show ?thesis by simp
qed

section \<open>Ranking for the context\<close>

lemma compareEntries_le_0:
  "compareEntries a b \<le> 0 \<longleftrightarrow>
     confidence a > confidence b \<or> (confidence a = confidence b \<and> updatedAt a \<ge> updatedAt b)"
  by (auto simp: compareEntries_def)

lemma sortBy_Cons: "sortBy cmp (x # xs) = insertBy cmp x (sortBy cmp xs)"
  by (simp add: sortBy_def)

lemma set_insertBy: "set (insertBy cmp x ys) = insert x (set ys)"
  by (induction ys) auto

lemma mset_insertBy: "mset (insertBy cmp x ys) = add_mset x (mset ys)"
  by (induction ys) auto

lemma mset_sortBy: "mset (sortBy cmp xs) = mset xs"
  by (induction xs) (simp_all add: sortBy_Cons mset_insertBy, simp add: sortBy_def)

lemma sorted_insertBy:
  assumes "sorted_wrt (\<lambda>x y. compareEntries x y \<le> 0) ys"
  shows "sorted_wrt (\<lambda>x y. compareEntries x y \<le> 0) (insertBy compareEntries x ys)"
  using assms
proof (induction ys)
  case Nil
  show ?case by simp
next
  case (Cons y ys)
  show ?case
  proof (cases "compareEntries x y \<le> 0")
    case True
    have "compareEntries x z \<le> 0" if "z \<in> set ys" for z
    proof -
      from Cons.prems that have "compareEntries y z \<le> 0" by simp
      with True show ?thesis unfolding compareEntries_le_0 by auto
    qed
    with True Cons.prems show ?thesis by simp
  next
    case False
    then have yx: "compareEntries y x \<le> 0"
      unfolding compareEntries_le_0 by auto
    from Cons have "sorted_wrt (\<lambda>x y. compareEntries x y \<le> 0) (insertBy compareEntries x ys)"
      by simp
    with False yx Cons.prems show ?thesis
      by (auto simp: set_insertBy)
  qed
qed

lemma sorted_sortBy: "sorted_wrt (\<lambda>x y. compareEntries x y \<le> 0) (sortBy compareEntries xs)"
proof (induction xs)
  case Nil
  show ?case by (simp add: sortBy_def)
next
  case (Cons x xs)
  then show ?case by (simp add: sortBy_Cons sorted_insertBy)
qed

lemma filter_insertBy:
  "filter (\<lambda>e. confidence e = c \<and> updatedAt e = u) (insertBy compareEntries x ys) =
     (if confidence x = c \<and> updatedAt x = u
      then x # filter (\<lambda>e. confidence e = c \<and> updatedAt e = u) ys
      else filter (\<lambda>e. confidence e = c \<and> updatedAt e = u) ys)"
proof (induction ys)
  case Nil
  show ?case by simp
next
  case (Cons y ys)
  show ?case
  proof (cases "compareEntries x y \<le> 0")
    case True
    then show ?thesis by simp
  next
    case False
    then have "\<not> (confidence x = confidence y \<and> updatedAt x = updatedAt y)"
      unfolding compareEntries_le_0 by auto
    with False Cons show ?thesis by auto
  qed
qed

lemma filter_sortBy:
  "filter (\<lambda>e. confidence e = c \<and> updatedAt e = u) (sortBy compareEntries xs) =
   filter (\<lambda>e. confidence e = c \<and> updatedAt e = u) xs"
proof (induction xs)
  case Nil
  show ?case by (simp add: sortBy_def)
next
  case (Cons x xs)
  then show ?case by (simp add: sortBy_Cons filter_insertBy)
qed

lemma ranking_example:
  "t1 < t2 \<Longrightarrow>
   getEntriesForContext (storeOf [entryA t1, entryB t2, entryC t3])
     = [entryB t2, entryA t1, entryC t3]"
  by (simp add: getEntriesForContext_def storeOf_def sortedEntries_def sortBy_def
        compareEntries_def entryA_def entryB_def entryC_def entryWith_def slice0_def Let_def)

text \<open>
  C6, as stated, fails on its last tie-break: the comparator of the source looks at the
  confidence and at \<open>updatedAt\<close> only, and the sort is stable, so two entries that agree on
  both come out in the order of the store, whatever their identifiers. The same two entries
  are returned in either order, depending on which was stored first.
\<close>

theorem C6_tie_order_counterexample:
  "getEntriesForContext (storeOf [twinB, twinA]) = [twinB, twinA]
   \<and> getEntriesForContext (storeOf [twinA, twinB]) = [twinA, twinB]
   \<and> map entry_id [twinB, twinA] = [''b'', ''a'']"
  by (simp add: getEntriesForContext_def storeOf_def sortedEntries_def sortBy_def
        compareEntries_def twinA_def twinB_def entryWith_def slice0_def Let_def)

text \<open>
  C6, amended. The ranking \<open>sortedEntries\<close> holds the stored entries, each as often as it is
  stored, ordered by confidence descending and, among equal confidences, by \<open>updatedAt\<close>
  descending; entries that agree on both keep the order in which they are stored.
  \<open>getEntriesForContext\<close> returns nothing when the store is disabled, the whole ranking
  when the limit is 0 (or negative), and otherwise the first \<open>maxInjectedEntries\<close> entries of
  the ranking. For A (confidence 0.9, updated at \<open>t1\<close>), B (0.9, updated at a later \<open>t2\<close>)
  and C (0.5), stored in this order, the result is B, A, C.
\<close>

theorem C6_getEntriesForContext:
  "sorted_wrt (\<lambda>x y. confidence x > confidence y
                       \<or> (confidence x = confidence y \<and> updatedAt x \<ge> updatedAt y))
     (sortedEntries m)
   \<and> mset (sortedEntries m) = mset (entries m)
   \<and> (\<forall>c u. filter (\<lambda>e. confidence e = c \<and> updatedAt e = u) (sortedEntries m)
             = filter (\<lambda>e. confidence e = c \<and> updatedAt e = u) (entries m))
   \<and> getEntriesForContext m =
       (if enabled m
        then (if maxInjectedEntries m > 0 then take (nat (maxInjectedEntries m)) (sortedEntries m)
              else sortedEntries m)
        else [])
   \<and> (t1 < t2 \<longrightarrow>
        getEntriesForContext (storeOf [entryA t1, entryB t2, entryC t3])
          = [entryB t2, entryA t1, entryC t3])"
proof -
  have "sorted_wrt (\<lambda>x y. compareEntries x y \<le> 0) (sortedEntries m)"
    by (simp add: sortedEntries_def sorted_sortBy)
  then have 1: "sorted_wrt (\<lambda>x y. confidence x > confidence y
                       \<or> (confidence x = confidence y \<and> updatedAt x \<ge> updatedAt y))
     (sortedEntries m)"
    by (simp add: compareEntries_le_0)
  have 2: "mset (sortedEntries m) = mset (entries m)"
    by (simp add: sortedEntries_def mset_sortBy)
  have 3: "filter (\<lambda>e. confidence e = c \<and> updatedAt e = u) (sortedEntries m)
             = filter (\<lambda>e. confidence e = c \<and> updatedAt e = u) (entries m)" for c u
    by (simp add: sortedEntries_def filter_sortBy)
  have 4: "getEntriesForContext m =
       (if enabled m
        then (if maxInjectedEntries m > 0 then take (nat (maxInjectedEntries m)) (sortedEntries m)
              else sortedEntries m)
        else [])"
    by (simp add: getEntriesForContext_def slice0_def Let_def)
  from 1 2 3 4 ranking_example [of t1 t2 t3] show ?thesis by simp
qed

text \<open>The ranking of A, B and C with A updated at 1, B at 2 and C at 3, limit 10 and limit 2.\<close>

theorem C6_getEntriesForContext_witness:
  "getEntriesForContext (storeOf [entryA 1, entryB 2, entryC 3]) = [entryB 2, entryA 1, entryC 3]
   \<and> getEntriesForContext ((storeOf [entryA 1, entryB 2, entryC 3])\<lparr>maxInjectedEntries := 2\<rparr>)
       = take 2 (sortedEntries (storeOf [entryA 1, entryB 2, entryC 3]))"
  using C6_getEntriesForContext [of "storeOf [entryA 1, entryB 2, entryC 3]" 1 2 3]
    C6_getEntriesForContext
      [of "(storeOf [entryA 1, entryB 2, entryC 3])\<lparr>maxInjectedEntries := 2\<rparr>" 1 2 3]
  by (simp add: storeOf_def sortedEntries_def)

section \<open>Confidence bounds\<close>

lemma those_map_eq_Some:
  "those (map f xs) = Some ys \<longleftrightarrow> list_all2 (\<lambda>x y. f x = Some y) xs ys"
  by (induction xs arbitrary: ys) (auto simp: list_all2_Cons1 split: option.splits)

lemma list_all2_Some_set:
  assumes "list_all2 (\<lambda>x y. f x = Some y) xs ys" "y \<in> set ys"
  shows "\<exists>x \<in> set xs. f x = Some y"
  using assms by (induction rule: list_all2_induct) auto

lemma double_seeds:
  "nearest 0.8 = 7205759403792794 / 2 ^ 53" "nearest 0.2 = 7205759403792794 / 2 ^ 55"
proof -
  show "nearest 0.8 = 7205759403792794 / 2 ^ 53"
    using nearest_value [where n = 53 and x = "0.8" and k = 7205759403792794]
    by (simp add: denormalExponent_def roundHalfEven_def Let_def)
  show "nearest 0.2 = 7205759403792794 / 2 ^ 55"
    using nearest_value [where n = 55 and x = "0.2" and k = 7205759403792794]
    by (simp add: denormalExponent_def roundHalfEven_def Let_def)
qed

lemma double_seed_fractions:
  "nearest (4 / 5) = 7205759403792794 / 2 ^ 53" "nearest (1 / 5) = 7205759403792794 / 2 ^ 55"
  using double_seeds by simp_all

text \<open>The seeds are in the interval, the boost is clamped above, the decay below.\<close>

lemma addEntry_confidence:
  "confidence (fst (addEntry newId now cont tgs src m))
     = (if src = SelfLearning then nearest 0.6 else nearest 0.8)"
  by (simp add: addEntry_def Let_def)

lemma seeds_in_range: "0 \<le> nearest 0.6" "nearest 0.6 \<le> 1" "0 \<le> nearest 0.8" "nearest 0.8 \<le> 1"
  by (simp_all add: double_fractions double_seed_fractions)

lemma boostEntry_le_1:
  assumes "boostEntry now eid delta e = Some e'" "confidence e \<le> 1"
  shows "confidence e' \<le> 1"
proof (cases "entry_id e = eid")
  case False
  with assms show ?thesis by (simp add: boostEntry_def)
next
  case True
  with assms(1) show ?thesis
    by (cases "plusNumber (confidence e) (Finite delta)") (auto simp: boostEntry_def)
qed

lemma decayEntry_ge_0:
  assumes "decayEntry now decayRate e = Some e'"
  shows "0 \<le> confidence e'"
  using assms by (cases "decayed now decayRate e") (auto simp: decayEntry_def)

lemma boostConfidence_le_1:
  assumes "boostConfidence now eid delta m = Some m'"
    and "\<forall>e \<in> set (entries m). confidence e \<le> 1"
  shows "\<forall>e \<in> set (entries m'). confidence e \<le> 1"
proof -
  from assms(1) have "list_all2 (\<lambda>e e'. boostEntry now eid delta e = Some e') (entries m) (entries m')"
    by (auto simp: boostConfidence_def those_map_eq_Some split: option.splits)
  with assms(2) show ?thesis
    by (blast dest: list_all2_Some_set intro: boostEntry_le_1)
qed

lemma decayConfidence_ge_0:
  assumes "decayConfidence now decayRate pruneBelow m = Some m'"
  shows "\<forall>e \<in> set (entries m'). 0 \<le> confidence e"
proof -
  from assms obtain es where es: "list_all2 (\<lambda>e e'. decayEntry now decayRate e = Some e') (entries m) es"
    and m': "entries m' = filter (\<lambda>e. confidence e \<ge> pruneBelow) es"
    by (auto simp: decayConfidence_def those_map_eq_Some split: option.splits)
  from es have "\<forall>e \<in> set es. 0 \<le> confidence e"
    by (blast dest: list_all2_Some_set intro: decayEntry_ge_0)
  with m' show ?thesis by simp
qed

text \<open>A manual entry boosted by 0.2: the sum of the doubles 0.8 and 0.2 rounds to 1.\<close>

lemma boostEntry_seed:
  assumes "entry_id e = eid" "confidence e = nearest 0.8"
  shows "boostEntry now eid (nearest 0.2) e
           = Some (e\<lparr>confidence := 1, useCount := useCount e + 1, updatedAt := now\<rparr>)"
proof -
  have sum: "toDouble (nearest 0.8 + nearest 0.2) = Finite (of_int 4503599627370496 / 2 ^ 52)"
    by (rule toDouble_scaled)
       (simp_all add: double_seed_fractions denormalExponent_def roundHalfEven_def Let_def)
  show ?thesis
    unfolding boostEntry_def assms using sum by simp
qed

text \<open>
  An entry at 1 written at the end of the first week, decayed at the clock reading 0: the
  age is -1 week, the product is the double -0.02, and the difference is the double 1.02.
\<close>

lemma decayEntry_clock_back:
  assumes "confidence e = 1" "updatedAt e = 604800000"
  shows "decayEntry 0 (nearest 0.02) e = Some (e\<lparr>confidence := 4593671619917906 / 2 ^ 52\<rparr>)"
proof -
  have "nearest 604800000 = 604800000"
    using nearest_value [where n = 23 and x = 604800000 and k = "604800000 * 2 ^ 23"]
    by (simp add: denormalExponent_def roundHalfEven_def Let_def)
  then have d: "nearest (real_of_int (0 - 604800000)) = - 604800000"
    using nearest_minus [of 604800000] by simp
  have one: "nearest 1 = 1"
    using nearest_value [where n = 52 and x = 1 and k = "2 ^ 52"]
    by (simp add: denormalExponent_def roundHalfEven_def Let_def)
  have age: "ageWeeks 0 e = - 1"
    unfolding ageWeeks_def assms(2) d oneWeekMs_def using nearest_minus [of 1] by (simp add: one)
  have same: "nearest (5764607523034235 / 2 ^ 58) = 5764607523034235 / 2 ^ 58"
    using nearest_value [where n = 58 and x = "5764607523034235 / 2 ^ 58" and k = 5764607523034235]
    by (simp add: denormalExponent_def roundHalfEven_def Let_def)
  have "nearest (nearest 0.02 * - 1) = - (5764607523034235 / 2 ^ 58)"
    using nearest_minus [of "5764607523034235 / 2 ^ 58"] same by (simp add: double_fractions)
  then have prod: "toDouble (nearest 0.02 * - 1) = Finite (- (5764607523034235 / 2 ^ 58))"
    by (rule toDouble_value) simp_all
  have diff: "toDouble (1 + 5764607523034235 / 2 ^ 58) = Finite (of_int 4593671619917906 / 2 ^ 52)"
    by (rule toDouble_scaled) (simp_all add: denormalExponent_def roundHalfEven_def Let_def)
  show ?thesis
    unfolding decayEntry_def decayed_def age assms(1) prod using diff by simp
qed

text \<open>
  C5 fails when the clock goes back. \<open>addEntry\<close> seeds the double of 0.8 or of 0.6,
  \<open>boostConfidence\<close> clamps at 1 from above and \<open>decayConfidence\<close> at 0 from below, but
  \<open>decayConfidence\<close> has no clamp from above: with a clock reading before the \<open>updatedAt\<close>
  of an entry the age is negative and the decay adds to the confidence. A manual entry
  added at the clock reading 604800000 and boosted by 0.2 there is at 1; decayed with the
  rate 0.02 at the clock reading 0 it is at 4593671619917906 / 2 ^ 52, the double 1.02,
  above 1. The delta and the rate are not negative.
\<close>

theorem C5_decay_exceeds_one:
  "map_option (\<lambda>m. map confidence (entries m))
     (Option.bind
        (boostConfidence 604800000 ''e1'' (nearest 0.2)
           (snd (addEntry ''e1'' 604800000 ''fact'' [] Manual (storeOf []))))
        (decayConfidence 0 (nearest 0.02) (nearest 0.05)))
     = Some [4593671619917906 / 2 ^ 52]
   \<and> (1::real) < 4593671619917906 / 2 ^ 52
   \<and> 0 \<le> nearest 0.2 \<and> 0 \<le> nearest 0.02"
proof -
  define e where "e = fst (addEntry ''e1'' 604800000 ''fact'' [] Manual (storeOf []))"
  define e' where "e' = e\<lparr>confidence := 1, useCount := useCount e + 1, updatedAt := 604800000\<rparr>"
  have e: "entry_id e = ''e1''" "confidence e = nearest 0.8"
    by (simp_all add: e_def addEntry_def Let_def)
  have e': "confidence e' = 1" "updatedAt e' = 604800000"
    by (simp_all add: e'_def)
  have add: "snd (addEntry ''e1'' 604800000 ''fact'' [] Manual (storeOf [])) = storeOf [e]"
    by (simp add: e_def addEntry_def Let_def storeOf_def)
  have boost: "boostConfidence 604800000 ''e1'' (nearest 0.2) (storeOf [e]) = Some (storeOf [e'])"
    unfolding boostConfidence_def entries_storeOf list.map boostEntry_seed [OF e] e'_def [symmetric]
    by (simp add: storeOf_def)
  have decay: "decayConfidence 0 (nearest 0.02) (nearest 0.05) (storeOf [e'])
                 = Some (storeOf [e'\<lparr>confidence := 4593671619917906 / 2 ^ 52\<rparr>])"
    unfolding decayConfidence_singleton [OF decayEntry_clock_back [OF e']]
    by (simp add: double_fractions)
  have run: "map_option (\<lambda>m. map confidence (entries m))
     (Option.bind
        (boostConfidence 604800000 ''e1'' (nearest 0.2)
           (snd (addEntry ''e1'' 604800000 ''fact'' [] Manual (storeOf []))))
        (decayConfidence 0 (nearest 0.02) (nearest 0.05)))
     = Some [4593671619917906 / 2 ^ 52]"
    unfolding add boost bind.bind_lunit decay by (simp add: entries_storeOf)
  have pos: "0 \<le> nearest 0.2" "0 \<le> nearest 0.02"
    by (simp_all add: double_fractions double_seed_fractions)
  from run pos show ?thesis by simp
qed

section \<open>What the loop leaves alone\<close>

lemma addEntryApp_frame:
  "selfLearningStore (addEntryApp env cont tgs src a) = selfLearningStore a"
  "webSearchStore (addEntryApp env cont tgs src a) = webSearchStore a"
  "consciousnessStore (addEntryApp env cont tgs src a) = consciousnessStore a"
  by (simp_all add: addEntryApp_def)


lemma saveInsights_frame:
  "selfLearningStore (fst (saveInsights env tn ins a n)) = selfLearningStore a"
  "webSearchStore (fst (saveInsights env tn ins a n)) = webSearchStore a"
  "consciousnessStore (fst (saveInsights env tn ins a n)) = consciousnessStore a"
  by (induction ins arbitrary: a n; simp add: addEntryApp_frame)+


lemma learnTopic_saves:
  "\<exists>ins. snd (learnTopic env p t a n) = fst (saveInsights env (name t) ins a n)"
proof -
  let ?q = "topicQuery t"
  show ?thesis
  proof (cases "search env ?q 4")
    case (Inl err)
    then have "snd (learnTopic env p t a n) = fst (saveInsights env (name t) [] a n)"
      by (simp add: learnTopic_def Let_def)
    then show ?thesis ..
  next
    case (Inr results)
    show ?thesis
    proof (cases "results = []")
      case True
      with Inr have "snd (learnTopic env p t a n) = fst (saveInsights env (name t) [] a n)"
        by (simp add: learnTopic_def Let_def)
      then show ?thesis ..
    next
      case False
      with Inr have "snd (learnTopic env p t a n) =
          fst (saveInsights env (name t)
                 (deduplicateInsights (memoryStore a)
                    (distillInsights env (activeModel (consciousnessStore a)) p (name t)
                       (readPages env (filter (\<lambda>u. u \<noteq> [])
                          (map url (slice0 (maxPagesPerTopic (selfLearningStore a)) results))))))
                 a n)"
        by (simp add: learnTopic_def Let_def split: prod.split)
      then show ?thesis ..
    qed
  qed
qed

lemma learnTopic_frame:
  "selfLearningStore (snd (learnTopic env p t a n)) = selfLearningStore a"
  "webSearchStore (snd (learnTopic env p t a n)) = webSearchStore a"
  "consciousnessStore (snd (learnTopic env p t a n)) = consciousnessStore a"
  using learnTopic_saves [of env p t a n] by (auto simp: saveInsights_frame)


lemma learnTopics_step:
  "snd (learnTopics env p (t # ts) a n) = snd (learnTopic env p t a n)
   \<or> (\<exists>n'. snd (learnTopics env p (t # ts) a n) =
             snd (learnTopics env p ts (snd (learnTopic env p t a n)) n'))"
  by (cases "learnTopic env p t a n") (auto split: completion.splits)

lemma learnTopics_frame:
  "selfLearningStore (snd (learnTopics env p ts a n)) = selfLearningStore a
   \<and> webSearchStore (snd (learnTopics env p ts a n)) = webSearchStore a
   \<and> consciousnessStore (snd (learnTopics env p ts a n)) = consciousnessStore a"
proof (induction ts arbitrary: a n)
  case Nil
  show ?case by simp
next
  case (Cons t ts)
  show ?case
    using learnTopics_step [of env p t ts a n] Cons.IH learnTopic_frame [of env p t a n]
    by (elim disjE exE) simp_all
qed


lemma learnAll_frame:
  "selfLearningStore (snd (learnAll env ts a)) = selfLearningStore a
   \<and> webSearchStore (snd (learnAll env ts a)) = webSearchStore a
   \<and> consciousnessStore (snd (learnAll env ts a)) = consciousnessStore a"
  by (simp add: learnAll_def learnTopics_frame split: sum.splits)


section \<open>The run and the ledger\<close>

lemma learnTopic_throws:
  "search env (topicQuery t) 4 = Inl err \<Longrightarrow> learnTopic env p t a n = (Thrown err, a)"
  by (simp add: learnTopic_def Let_def)

lemma learnTopic_returns:
  "search env (topicQuery t) 4 = Inr rs \<Longrightarrow> \<exists>n'. fst (learnTopic env p t a n) = Returned n'"
  by (simp add: learnTopic_def Let_def split: prod.split)

lemma learnTopics_returns:
  "\<forall>t \<in> set ts. \<exists>rs. search env (topicQuery t) 4 = Inr rs \<Longrightarrow>
   \<exists>n'. fst (learnTopics env p ts a n) = Returned n'"
proof (induction ts arbitrary: a n)
  case Nil
  show ?case by simp
next
  case (Cons t ts)
  then obtain rs where "search env (topicQuery t) 4 = Inr rs" by auto
  then obtain n' where n': "fst (learnTopic env p t a n) = Returned n'"
    using learnTopic_returns [where env = env and t = t and p = p and a = a and n = n] by blast
  obtain a' where a': "learnTopic env p t a n = (Returned n', a')"
    using n' by (cases "learnTopic env p t a n") simp
  from Cons.prems have "\<forall>t \<in> set ts. \<exists>rs. search env (topicQuery t) 4 = Inr rs" by simp
  from Cons.IH [OF this, of a' n'] show ?case by (simp add: a')
qed

lemma learnTopics_throws:
  "\<forall>t \<in> set done. \<exists>rs. search env (topicQuery t) 4 = Inr rs \<Longrightarrow>
   search env (topicQuery t) 4 = Inl err \<Longrightarrow>
   learnTopics env p (done @ t # rest) a n = (Thrown err, snd (learnTopics env p done a n))"
proof (induction "done" arbitrary: a n)
  case Nil
  then show ?case by (simp add: learnTopic_throws)
next
  case (Cons d ds)
  then obtain rs where "search env (topicQuery d) 4 = Inr rs" by auto
  then obtain n' where n': "fst (learnTopic env p d a n) = Returned n'"
    using learnTopic_returns [where env = env and t = d and p = p and a = a and n = n] by blast
  obtain a' where a': "learnTopic env p d a n = (Returned n', a')"
    using n' by (cases "learnTopic env p d a n") simp
  from Cons.prems have "\<forall>t \<in> set ds. \<exists>rs. search env (topicQuery t) 4 = Inr rs" by simp
  from Cons.IH [OF this Cons.prems(2), of a' n'] show ?case by (simp add: a')
qed

text \<open>The pre-flight checks of \<open>runLearningLoop\<close>, all passed.\<close>

lemma run_started:
  assumes "learning_enabled (selfLearningStore a)" "\<not> isRunning (selfLearningStore a)"
    and "activeProvider (consciousnessStore a) \<noteq> []" "activeModel (consciousnessStore a) \<noteq> []"
    and "search_configured (webSearchStore a)" "activeTopics (selfLearningStore a) \<noteq> []"
  shows "runLearningLoop env a =
     (case learnAll env (activeTopics (selfLearningStore a))
             (snd (startRunApp env (map name (activeTopics (selfLearningStore a))) a)) of
        (Returned totalInsights, a2) \<Rightarrow>
          (Returned totalInsights, completeRunApp env (nanoid env (tick a)) totalInsights a2)
      | (Thrown err, a2) \<Rightarrow>
          (Thrown err, failRunApp env (nanoid env (tick a)) (message err) a2))"
  using assms
  by (simp add: runLearningLoop_def Let_def startRunApp_def startRun_def
      split: prod.split completion.split)

lemma startRunApp_history:
  "runHistory (selfLearningStore (snd (startRunApp env names a))) =
     \<lparr>run_id = nanoid env (tick a), startedAt = dateNow env (tick a), completedAt = None,
      status = StatusRunning, topicsProcessed = names, insightsSaved = 0, run_error = None\<rparr>
     # take 19 (runHistory (selfLearningStore a))"
  by (simp add: startRunApp_def startRun_def Let_def)

lemma startRunApp_frame:
  "lastRunAt (selfLearningStore (snd (startRunApp env names a))) = lastRunAt (selfLearningStore a)"
  "memoryStore (snd (startRunApp env names a)) = memoryStore a"
  by (simp_all add: startRunApp_def startRun_def Let_def)


lemma run_not_started:
  assumes "\<not> (learning_enabled (selfLearningStore a) \<and> \<not> isRunning (selfLearningStore a)
            \<and> activeProvider (consciousnessStore a) \<noteq> []
            \<and> activeModel (consciousnessStore a) \<noteq> []
            \<and> search_configured (webSearchStore a) \<and> activeTopics (selfLearningStore a) \<noteq> [])"
  shows "snd (runLearningLoop env a) = a"
  using assms by (auto simp: runLearningLoop_def Let_def)

lemma run_thrown_after_start:
  assumes "learning_enabled (selfLearningStore a)" "\<not> isRunning (selfLearningStore a)"
    and "activeProvider (consciousnessStore a) \<noteq> []" "activeModel (consciousnessStore a) \<noteq> []"
    and "search_configured (webSearchStore a)" "activeTopics (selfLearningStore a) \<noteq> []"
    and "fst (runLearningLoop env a) = Thrown err"
  shows "fst (learnAll env (activeTopics (selfLearningStore a))
               (snd (startRunApp env (map name (activeTopics (selfLearningStore a))) a)))
           = Thrown err
       \<and> snd (runLearningLoop env a) =
           failRunApp env (nanoid env (tick a)) (message err)
             (snd (learnAll env (activeTopics (selfLearningStore a))
                     (snd (startRunApp env (map name (activeTopics (selfLearningStore a))) a))))"
proof -
  let ?r = "learnAll env (activeTopics (selfLearningStore a))
              (snd (startRunApp env (map name (activeTopics (selfLearningStore a))) a))"
  show ?thesis
    using assms(7) run_started [OF assms(1-6), of env]
    by (cases ?r; cases "fst ?r") auto
qed

lemma run_returned_after_start:
  assumes "learning_enabled (selfLearningStore a)" "\<not> isRunning (selfLearningStore a)"
    and "activeProvider (consciousnessStore a) \<noteq> []" "activeModel (consciousnessStore a) \<noteq> []"
    and "search_configured (webSearchStore a)" "activeTopics (selfLearningStore a) \<noteq> []"
    and "fst (learnAll env (activeTopics (selfLearningStore a))
               (snd (startRunApp env (map name (activeTopics (selfLearningStore a))) a)))
           = Returned k"
  shows "runLearningLoop env a =
           (Returned k,
            completeRunApp env (nanoid env (tick a)) k
              (snd (learnAll env (activeTopics (selfLearningStore a))
                      (snd (startRunApp env (map name (activeTopics (selfLearningStore a))) a)))))"
proof -
  let ?r = "learnAll env (activeTopics (selfLearningStore a))
              (snd (startRunApp env (map name (activeTopics (selfLearningStore a))) a))"
  show ?thesis
    using assms(7) run_started [OF assms(1-6), of env]
    by (cases ?r) auto
qed

lemma history_in_loop:
  "runHistory (selfLearningStore (snd (learnAll env ts (snd (startRunApp env names a))))) =
     \<lparr>run_id = nanoid env (tick a), startedAt = dateNow env (tick a), completedAt = None,
      status = StatusRunning, topicsProcessed = names, insightsSaved = 0, run_error = None\<rparr>
     # take 19 (runHistory (selfLearningStore a))"
  by (simp add: learnAll_frame startRunApp_history)

lemma run_thrown_lastRunAt:
  assumes "fst (runLearningLoop env a) = Thrown err"
  shows "lastRunAt (selfLearningStore (snd (runLearningLoop env a))) = lastRunAt (selfLearningStore a)"
proof (cases "learning_enabled (selfLearningStore a) \<and> \<not> isRunning (selfLearningStore a)
            \<and> activeProvider (consciousnessStore a) \<noteq> []
            \<and> activeModel (consciousnessStore a) \<noteq> []
            \<and> search_configured (webSearchStore a) \<and> activeTopics (selfLearningStore a) \<noteq> []")
  case True
  then have "snd (runLearningLoop env a) =
           failRunApp env (nanoid env (tick a)) (message err)
             (snd (learnAll env (activeTopics (selfLearningStore a))
                     (snd (startRunApp env (map name (activeTopics (selfLearningStore a))) a))))"
    using run_thrown_after_start [of a env err] assms by simp
  then show ?thesis
    by (simp add: failRunApp_def failRun_def learnAll_frame startRunApp_frame)
next
  case False
  then show ?thesis using run_not_started [of a env] by simp
qed

text \<open>
  C9. \<open>completeRun\<close> changes the records with the given identifier, and only those, to
  \<open>done\<close>, stamps them with the completion time and the count, and sets \<open>lastRunAt\<close> to that
  time. \<open>failRun\<close> changes them to \<open>error\<close>, stamps them and records the message, and
  leaves \<open>lastRunAt\<close> as it was; so after a run that throws, \<open>lastRunAt\<close> is what it was
  before the run.
\<close>

theorem C9_completeRun_failRun:
  "length (runHistory (completeRun now runId saved l)) = length (runHistory l)
   \<and> (\<forall>i < length (runHistory l).
         runHistory (completeRun now runId saved l) ! i =
           (if run_id (runHistory l ! i) = runId
            then (runHistory l ! i)\<lparr>status := StatusDone, completedAt := Some now,
                                     insightsSaved := saved\<rparr>
            else runHistory l ! i))
   \<and> lastRunAt (completeRun now runId saved l) = Some now
   \<and> length (runHistory (failRun now runId msg l)) = length (runHistory l)
   \<and> (\<forall>i < length (runHistory l).
         runHistory (failRun now runId msg l) ! i =
           (if run_id (runHistory l ! i) = runId
            then (runHistory l ! i)\<lparr>status := StatusError, completedAt := Some now,
                                     run_error := Some msg\<rparr>
            else runHistory l ! i))
   \<and> lastRunAt (failRun now runId msg l) = lastRunAt l
   \<and> (fst (runLearningLoop env a) = Thrown err \<longrightarrow>
        lastRunAt (selfLearningStore (snd (runLearningLoop env a)))
          = lastRunAt (selfLearningStore a))"
  using run_thrown_lastRunAt [of env a err]
  by (simp add: completeRun_def failRun_def)


section \<open>Runs of the stub collaborators\<close>

lemma dropWhile_replicate: "\<not> P c \<Longrightarrow> dropWhile P (replicate n c) = replicate n c"
  by (cases n) simp_all

lemma trim_replicate: "\<not> isSpace c \<Longrightarrow> trim (replicate n c) = replicate n c"
  by (simp add: trim_def dropWhile_replicate)

lemma stubEnvWith_fields:
  "dateNow (stubEnvWith s) = (\<lambda>k. 1000 + int k)"
  "nanoid (stubEnvWith s) = (\<lambda>k. replicate (Suc k) CHR ''i'')"
  "getProviderInstance (stubEnvWith s) = (\<lambda>_. Inr ())"
  "search (stubEnvWith s) = s"
  "ofetch (stubEnvWith s) = (\<lambda>u. Inr (replicate 300 CHR ''x''))"
  "matchTitle (stubEnvWith s) = (\<lambda>_. None)"
  "generateText (stubEnvWith s) =
     (\<lambda>provider model prompt. Inr (Some (''['' @ quote @ tokioInsight @ quote @ '']'')))"
  "jsonParse (stubEnvWith s) = (\<lambda>txt. Inr [JsonString tokioInsight])"
  by (simp_all add: stubEnvWith_def)

lemma readPage_stub: "readPage (stubEnvWith s) u = replicate 300 CHR ''x''"
  by (simp add: readPage_def stubEnvWith_fields)

lemma readPages_stub:
  "readPages (stubEnvWith s) [u] =
     [\<lparr>page_url = u, page_title = u, page_content = replicate 300 CHR ''x''\<rparr>]"
proof -
  have "\<not> isSpace CHR ''x''" by (simp add: isSpace_def)
  then have "trim (replicate 300 CHR ''x'') = replicate 300 CHR ''x''"
    by (rule trim_replicate)
  then show ?thesis
    by (simp add: readPage_stub stubEnvWith_fields)
qed

lemma trim_answer:
  "trim (''['' @ quote @ tokioInsight @ quote @ '']'') = ''['' @ quote @ tokioInsight @ quote @ '']''"
  by code_simp

lemma match_answer:
  "matchArray (''['' @ quote @ tokioInsight @ quote @ '']'')
     = Some (''['' @ quote @ tokioInsight @ quote @ '']'')"
  by code_simp

lemma trim_tokio: "trim tokioInsight = tokioInsight"
  by code_simp

lemma tokio_nonempty: "tokioInsight \<noteq> []"
  by (simp add: tokioInsight_def)

lemma distill_stub:
  "pages \<noteq> [] \<Longrightarrow> distillInsights (stubEnvWith s) m p t pages = [tokioInsight]"
  using tokio_nonempty
  by (simp add: distillInsights_def stubEnvWith_fields Let_def trim_answer match_answer trim_tokio
       del: append.simps)

lemma rustTopic_fields:
  "name rustTopic = ''Rust async runtimes''" "hint rustTopic = []" "topic_enabled rustTopic"
  "topicQuery rustTopic = ''Rust async runtimes''"
  by (simp_all add: rustTopic_def topicQuery_def)

lemma goTopic_fields:
  "name goTopic = ''Go schedulers''" "hint goTopic = []" "topic_enabled goTopic"
  "topicQuery goTopic = ''Go schedulers''"
  by (simp_all add: goTopic_def topicQuery_def)

lemma learnTopic_stub:
  assumes "s ''Rust async runtimes'' 4 = Inr [resultA]"
    and "maxPagesPerTopic (selfLearningStore a) = 2"
  shows "learnTopic (stubEnvWith s) p rustTopic a n =
     (Returned (snd (saveInsights (stubEnvWith s) ''Rust async runtimes''
                       (deduplicateInsights (memoryStore a) [tokioInsight]) a n)),
      fst (saveInsights (stubEnvWith s) ''Rust async runtimes''
             (deduplicateInsights (memoryStore a) [tokioInsight]) a n))"
  using assms
  by (simp add: learnTopic_def rustTopic_fields stubEnvWith_fields slice0_def readPages_stub
      distill_stub resultA_def Let_def del: readPages.simps split: prod.split)

lemma dedup_empty: "entries m = [] \<Longrightarrow> deduplicateInsights m ins = ins"
  by (simp add: deduplicateInsights_def)

lemma tokio_not_self_duplicate:
  "\<not> isDuplicateOf (splitWhitespace (toLowerCase tokioInsight)) (toLowerCase tokioInsight)"
  by code_simp

lemma dedup_tokio:
  "map content (entries m) = [tokioInsight] \<Longrightarrow>
   deduplicateInsights m [tokioInsight] = [tokioInsight]"
  using tokio_not_self_duplicate
  by (cases "entries m") (auto simp: deduplicateInsights_def Let_def)

lemma first_run: "runLearningLoop stubEnv (appWith [rustTopic] []) = (Returned 1, afterFirstRun)"
  by (simp add: runLearningLoop_def appWith_def isRunning_def latestRun_def search_configured_def
        activeTopics_def rustTopic_fields startRunApp_def startRun_def learnAll_def stubEnv_def
        stubEnvWith_fields learnTopic_stub dedup_empty addEntryApp_def addEntry_def
        completeRunApp_def completeRun_def afterFirstRun_def tokioEntry_def trim_tokio
        storeOf_def Let_def)

lemma second_run:
  "fst (runLearningLoop stubEnv afterFirstRun) = Returned 1
   \<and> entries (memoryStore (snd (runLearningLoop stubEnv afterFirstRun)))
       = [tokioEntry ''ii'' 1001, tokioEntry ''iiiii'' 1004]"
  by (simp add: runLearningLoop_def isRunning_def latestRun_def search_configured_def
        activeTopics_def rustTopic_fields startRunApp_def startRun_def learnAll_def stubEnv_def
        stubEnvWith_fields learnTopic_stub dedup_tokio addEntryApp_def addEntry_def
        completeRunApp_def completeRun_def afterFirstRun_def tokioEntry_def trim_tokio
        storeOf_def Let_def eval_nat_numeral)

lemma failed_run:
  "runLearningLoop flakyEnv (appWith [rustTopic, goTopic] [])
     = (Thrown (Error ''fetch failed''), afterFailedRun)"
  by (simp add: runLearningLoop_def appWith_def isRunning_def latestRun_def search_configured_def
        activeTopics_def rustTopic_fields goTopic_fields startRunApp_def startRun_def learnAll_def
        flakyEnv_def learnTopic_throws
        stubEnvWith_fields learnTopic_stub dedup_empty addEntryApp_def addEntry_def
        failRunApp_def failRun_def afterFailedRun_def tokioEntry_def trim_tokio
        storeOf_def Let_def)

lemma aborted_run:
  "fst (runLearningLoop flakyEnv (appWith [goTopic, rustTopic] [])) = Thrown (Error ''fetch failed'')
   \<and> map status (runHistory (selfLearningStore
         (snd (runLearningLoop flakyEnv (appWith [goTopic, rustTopic] []))))) = [StatusError]
   \<and> entries (memoryStore (snd (runLearningLoop flakyEnv (appWith [goTopic, rustTopic] [])))) = []"
  by (simp add: runLearningLoop_def appWith_def isRunning_def latestRun_def search_configured_def
        activeTopics_def rustTopic_fields goTopic_fields startRunApp_def startRun_def learnAll_def
        flakyEnv_def learnTopic_throws
        stubEnvWith_fields addEntryApp_def addEntry_def
        failRunApp_def failRun_def 
        storeOf_def Let_def)

section \<open>Two runs back to back\<close>

text \<open>
  C2. The stubs of the end-to-end example return the same search result, page and insight
  on every call. The first run stores the insight and leaves \<open>afterFirstRun\<close>; the second
  run stores it again, so the store holds two entries with the same content. The insight
  has ten tokens, five of them longer than four characters, and the filter of the source
  compares 5/10 with 0.6; the rule of the specification compares 5/5 and rejects the
  insight. The defect is the one of C1.
\<close>

theorem C2_second_run_saves_again:
  "runLearningLoop stubEnv (appWith [rustTopic] []) = (Returned 1, afterFirstRun)
   \<and> fst (runLearningLoop stubEnv afterFirstRun) = Returned 1
   \<and> map content (entries (memoryStore (snd (runLearningLoop stubEnv afterFirstRun))))
       = [tokioInsight, tokioInsight]
   \<and> spec_dedupe [tokioInsight] [tokioInsight] = []"
proof -
  have "spec_dedupe [tokioInsight] [tokioInsight] = []"
    by code_simp
  then show ?thesis
    using first_run second_run by (simp add: tokioEntry_def)
qed

text \<open>The two runs composed: two entries are stored.\<close>

theorem C2_second_run_saves_again_witness:
  "length (entries (memoryStore
     (snd (runLearningLoop stubEnv (snd (runLearningLoop stubEnv (appWith [rustTopic] []))))))) = 2"
proof -
  have "length (map content (entries (memoryStore (snd (runLearningLoop stubEnv afterFirstRun)))))
          = 2"
    using C2_second_run_saves_again by simp
  moreover have "snd (runLearningLoop stubEnv (appWith [rustTopic] [])) = afterFirstRun"
    using C2_second_run_saves_again by simp
  ultimately show ?thesis by simp
qed

section \<open>Single flight\<close>

lemma settledTail_runningCount: "settledTail h \<Longrightarrow> runningCount h \<le> 1"
proof (cases h)
  case Nil
  then show ?thesis by (simp add: runningCount_def)
next
  case (Cons r rest)
  assume "settledTail h"
  with Cons have "filter (\<lambda>r. status r = StatusRunning) rest = []"
    by (simp add: settledTail_def list_all_iff filter_empty_conv)
  with Cons show ?thesis by (simp add: runningCount_def)
qed

lemma settled_history:
  assumes "settledTail h" "\<not> (case h of [] \<Rightarrow> False | r # _ \<Rightarrow> status r = StatusRunning)"
  shows "list_all (\<lambda>r. status r \<noteq> StatusRunning) h"
  using assms by (cases h) (simp_all add: settledTail_def)

lemma settledTail_startRun:
  assumes "settledTail (runHistory l)" "\<not> isRunning l"
  shows "settledTail (runHistory (snd (startRun newId now names l)))"
proof -
  have "list_all (\<lambda>r. status r \<noteq> StatusRunning) (runHistory l)"
    using assms by (intro settled_history) (simp_all add: isRunning_def latestRun_def split: list.splits)
  then have "list_all (\<lambda>r. status r \<noteq> StatusRunning) (take 19 (runHistory l))"
    by (auto simp: list_all_iff dest: in_set_takeD)
  then show ?thesis
    by (simp add: startRun_def Let_def settledTail_def)
qed

lemma settledTail_completeRun:
  "settledTail (runHistory l) \<Longrightarrow> settledTail (runHistory (completeRun now runId saved l))"
  by (cases "runHistory l") (auto simp: completeRun_def settledTail_def list_all_iff)

lemma settledTail_failRun:
  "settledTail (runHistory l) \<Longrightarrow> settledTail (runHistory (failRun now runId msg l))"
  by (cases "runHistory l") (auto simp: failRun_def settledTail_def list_all_iff)

lemma settledTail_in_loop:
  assumes "settledTail (runHistory (selfLearningStore a))" "\<not> isRunning (selfLearningStore a)"
  shows "settledTail (runHistory (selfLearningStore
           (snd (learnAll env ts (snd (startRunApp env names a))))))"
proof -
  have "selfLearningStore (snd (startRunApp env names a)) =
          snd (startRun (nanoid env (tick a)) (dateNow env (tick a)) names (selfLearningStore a))"
    by (simp add: startRunApp_def split: prod.split)
  then show ?thesis
    using settledTail_startRun [OF assms] by (simp add: learnAll_frame)
qed

lemma settledTail_run:
  assumes "settledTail (runHistory (selfLearningStore a))"
  shows "settledTail (runHistory (selfLearningStore (snd (runLearningLoop env a))))"
proof (cases "learning_enabled (selfLearningStore a) \<and> \<not> isRunning (selfLearningStore a)
            \<and> activeProvider (consciousnessStore a) \<noteq> []
            \<and> activeModel (consciousnessStore a) \<noteq> []
            \<and> search_configured (webSearchStore a) \<and> activeTopics (selfLearningStore a) \<noteq> []")
  case False
  then show ?thesis using assms run_not_started [of a env] by simp
next
  case True
  let ?ts = "activeTopics (selfLearningStore a)"
  let ?a2 = "snd (learnAll env ?ts (snd (startRunApp env (map name ?ts) a)))"
  have loop: "settledTail (runHistory (selfLearningStore ?a2))"
    using settledTail_in_loop assms True by blast
  show ?thesis
  proof (cases "fst (learnAll env ?ts (snd (startRunApp env (map name ?ts) a)))")
    case (Returned k)
    then have "snd (runLearningLoop env a) = completeRunApp env (nanoid env (tick a)) k ?a2"
      using run_returned_after_start [of a env k] True by simp
    then show ?thesis
      using settledTail_completeRun [OF loop] by (simp add: completeRunApp_def)
  next
    case (Thrown err)
    then have "fst (runLearningLoop env a) = Thrown err"
      using run_started [of a env] True
      by (cases "learnAll env ?ts (snd (startRunApp env (map name ?ts) a))") auto
    then have "snd (runLearningLoop env a) =
                 failRunApp env (nanoid env (tick a)) (message err) ?a2"
      using run_thrown_after_start [of a env err] True by simp
    then show ?thesis
      using settledTail_failRun [OF loop] by (simp add: failRunApp_def)
  qed
qed

lemma running_in_loop:
  "isRunning (selfLearningStore (snd (learnAll env ts (snd (startRunApp env names a)))))"
  by (simp add: isRunning_def latestRun_def history_in_loop)

text \<open>
  C4. While the most recent record of the ledger is \<open>running\<close>, \<open>runLearningLoop\<close> returns
  0 and leaves the whole state as it is: no record is added, the memory store is not
  touched. That is the case in every state of the loop of a run, after any number of
  topics, so a second call made while a run is in flight does nothing. On a ledger where
  no record behind the most recent one is running (the empty ledger is one), at most one
  record is running before the call, during the loop and after the call, and the ledger
  after the call has that shape again.
\<close>

theorem C4_single_flight:
  "(isRunning (selfLearningStore a) \<longrightarrow> runLearningLoop env a = (Returned 0, a))
   \<and> runLearningLoop env (snd (learnAll env ts (snd (startRunApp env names a))))
       = (Returned 0, snd (learnAll env ts (snd (startRunApp env names a))))
   \<and> (settledTail (runHistory (selfLearningStore a)) \<longrightarrow>
        runningCount (runHistory (selfLearningStore a)) \<le> 1
      \<and> (\<not> isRunning (selfLearningStore a) \<longrightarrow>
           runningCount (runHistory (selfLearningStore
             (snd (learnAll env ts (snd (startRunApp env names a)))))) \<le> 1)
      \<and> settledTail (runHistory (selfLearningStore (snd (runLearningLoop env a))))
      \<and> runningCount (runHistory (selfLearningStore (snd (runLearningLoop env a)))) \<le> 1)"
proof -
  have noop: "isRunning (selfLearningStore b) \<Longrightarrow> runLearningLoop env b = (Returned 0, b)"
    for b
    by (simp add: runLearningLoop_def)
  show ?thesis
    using noop [of a] noop [OF running_in_loop [of env ts names a]]
      settledTail_runningCount settledTail_in_loop [of a env ts names] settledTail_run [of a env]
    by blast
qed

section \<open>Which failures reach the caller\<close>

lemma run_done_head:
  assumes "learning_enabled (selfLearningStore a)" "\<not> isRunning (selfLearningStore a)"
    and "activeProvider (consciousnessStore a) \<noteq> []" "activeModel (consciousnessStore a) \<noteq> []"
    and "search_configured (webSearchStore a)" "activeTopics (selfLearningStore a) \<noteq> []"
    and "fst (learnAll env (activeTopics (selfLearningStore a))
               (snd (startRunApp env (map name (activeTopics (selfLearningStore a))) a)))
           = Returned k"
  shows "fst (runLearningLoop env a) = Returned k
       \<and> (\<exists>r rest. runHistory (selfLearningStore (snd (runLearningLoop env a))) = r # rest
             \<and> status r = StatusDone \<and> insightsSaved r = k)"
  by (simp add: run_returned_after_start [OF assms] completeRunApp_def completeRun_def
        history_in_loop)

lemma run_error_head:
  assumes "learning_enabled (selfLearningStore a)" "\<not> isRunning (selfLearningStore a)"
    and "activeProvider (consciousnessStore a) \<noteq> []" "activeModel (consciousnessStore a) \<noteq> []"
    and "search_configured (webSearchStore a)" "activeTopics (selfLearningStore a) \<noteq> []"
    and "learnAll env (activeTopics (selfLearningStore a))
               (snd (startRunApp env (map name (activeTopics (selfLearningStore a))) a))
           = (Thrown err, a2)"
  shows "fst (runLearningLoop env a) = Thrown err
       \<and> (\<exists>r rest. runHistory (selfLearningStore (snd (runLearningLoop env a))) = r # rest
             \<and> status r = StatusError)
       \<and> memoryStore (snd (runLearningLoop env a)) = memoryStore a2"
proof -
  have run: "runLearningLoop env a =
               (Thrown err, failRunApp env (nanoid env (tick a)) (message err) a2)"
    using run_started [OF assms(1-6), of env] assms(7) by simp
  have "a2 = snd (learnAll env (activeTopics (selfLearningStore a))
               (snd (startRunApp env (map name (activeTopics (selfLearningStore a))) a)))"
    using assms(7) by simp
  then have "runHistory (selfLearningStore a2) =
     \<lparr>run_id = nanoid env (tick a), startedAt = dateNow env (tick a), completedAt = None,
      status = StatusRunning, topicsProcessed = map name (activeTopics (selfLearningStore a)),
      insightsSaved = 0, run_error = None\<rparr>
     # take 19 (runHistory (selfLearningStore a))"
    by (simp add: history_in_loop)
  then show ?thesis
    by (simp add: run failRunApp_def failRun_def)
qed

text \<open>
  C3, as stated, fails: the search of a topic is awaited inside the \<^verbatim>\<open>try\<close> block with no
  handler of its own, and the \<^verbatim>\<open>catch\<close> clause records the failure and throws it again.
  With a search that throws for the first of two topics, the run throws to the caller, its
  record is in status \<open>error\<close>, and the second topic, whose search would succeed, is never
  processed.
\<close>

theorem C3_search_failure_counterexample:
  "fst (runLearningLoop flakyEnv (appWith [goTopic, rustTopic] [])) = Thrown (Error ''fetch failed'')
   \<and> map status (runHistory (selfLearningStore
         (snd (runLearningLoop flakyEnv (appWith [goTopic, rustTopic] []))))) = [StatusError]
   \<and> entries (memoryStore (snd (runLearningLoop flakyEnv (appWith [goTopic, rustTopic] [])))) = []
   \<and> search flakyEnv (topicQuery rustTopic) 4 = Inr [resultA]"
  using aborted_run by (simp add: flakyEnv_def stubEnvWith_fields rustTopic_fields)

text \<open>
  C3, amended. With the loop enabled and no run in flight, each failed pre-flight check
  throws its configuration error and leaves the state as it is. Past the pre-flight checks:
  when the provider instance is obtained and no search throws, the run returns and its
  record is \<open>done\<close> with the returned count, whatever the page requests, the model and the
  JSON parser do; when obtaining the provider instance throws, or the search of a topic
  throws after the searches of the topics before it succeeded, the run throws that error
  to the caller, its record is \<open>error\<close>, and the memory store is the one left by the topics
  before the failing one: the topics after it are not processed.
\<close>

theorem C3_error_propagation:
  assumes "learning_enabled (selfLearningStore a)" "\<not> isRunning (selfLearningStore a)"
  shows
    "(activeProvider (consciousnessStore a) = [] \<or> activeModel (consciousnessStore a) = [] \<longrightarrow>
        runLearningLoop env a = (Thrown (Error ''No active LLM provider configured''), a))
   \<and> (activeProvider (consciousnessStore a) \<noteq> [] \<and> activeModel (consciousnessStore a) \<noteq> [] \<longrightarrow>
       (\<not> search_configured (webSearchStore a) \<longrightarrow>
          runLearningLoop env a = (Thrown (Error webSearchNotConfigured), a))
     \<and> (search_configured (webSearchStore a) \<longrightarrow>
         (activeTopics (selfLearningStore a) = [] \<longrightarrow>
            runLearningLoop env a = (Thrown (Error ''No learning topics configured''), a))
       \<and> (activeTopics (selfLearningStore a) \<noteq> [] \<longrightarrow>
           (getProviderInstance env (activeProvider (consciousnessStore a)) = Inr p
              \<and> (\<forall>t \<in> set (activeTopics (selfLearningStore a)).
                    \<exists>rs. search env (topicQuery t) 4 = Inr rs) \<longrightarrow>
              (\<exists>k r rest. fst (runLearningLoop env a) = Returned k
                 \<and> runHistory (selfLearningStore (snd (runLearningLoop env a))) = r # rest
                 \<and> status r = StatusDone \<and> insightsSaved r = k))
         \<and> (getProviderInstance env (activeProvider (consciousnessStore a)) = Inl err \<longrightarrow>
              fst (runLearningLoop env a) = Thrown err
              \<and> (\<exists>r rest. runHistory (selfLearningStore (snd (runLearningLoop env a))) = r # rest
                    \<and> status r = StatusError)
              \<and> memoryStore (snd (runLearningLoop env a)) = memoryStore a)
         \<and> (getProviderInstance env (activeProvider (consciousnessStore a)) = Inr p
              \<and> activeTopics (selfLearningStore a) = before @ t # rest
              \<and> (\<forall>d \<in> set before. \<exists>rs. search env (topicQuery d) 4 = Inr rs)
              \<and> search env (topicQuery t) 4 = Inl err \<longrightarrow>
              fst (runLearningLoop env a) = Thrown err
              \<and> (\<exists>r rest. runHistory (selfLearningStore (snd (runLearningLoop env a))) = r # rest
                    \<and> status r = StatusError)
              \<and> memoryStore (snd (runLearningLoop env a)) =
                  memoryStore (snd (learnTopics env p before
                    (snd (startRunApp env (map name (activeTopics (selfLearningStore a))) a))
                    0))))))"
proof -
  let ?l = "selfLearningStore a"
  let ?ts = "activeTopics ?l"
  let ?a1 = "snd (startRunApp env (map name ?ts) a)"
  have pre1: "activeProvider (consciousnessStore a) = [] \<or> activeModel (consciousnessStore a) = []
      \<Longrightarrow> runLearningLoop env a = (Thrown (Error ''No active LLM provider configured''), a)"
    using assms by (simp add: runLearningLoop_def)
  have pre2: "activeProvider (consciousnessStore a) \<noteq> [] \<Longrightarrow> activeModel (consciousnessStore a) \<noteq> []
      \<Longrightarrow> \<not> search_configured (webSearchStore a)
      \<Longrightarrow> runLearningLoop env a = (Thrown (Error webSearchNotConfigured), a)"
    using assms by (simp add: runLearningLoop_def)
  have pre3: "activeProvider (consciousnessStore a) \<noteq> [] \<Longrightarrow> activeModel (consciousnessStore a) \<noteq> []
      \<Longrightarrow> search_configured (webSearchStore a) \<Longrightarrow> ?ts = []
      \<Longrightarrow> runLearningLoop env a = (Thrown (Error ''No learning topics configured''), a)"
    using assms by (simp add: runLearningLoop_def Let_def)
  {
    assume ok: "activeProvider (consciousnessStore a) \<noteq> []" "activeModel (consciousnessStore a) \<noteq> []"
      "search_configured (webSearchStore a)" "?ts \<noteq> []"
    have cons: "consciousnessStore (snd (startRunApp env names a)) = consciousnessStore a"
      for names
      by (simp add: startRunApp_def split: prod.split)
    {
      assume p: "getProviderInstance env (activeProvider (consciousnessStore a)) = Inr p"
        and all: "\<forall>t \<in> set ?ts. \<exists>rs. search env (topicQuery t) 4 = Inr rs"
      obtain k where "fst (learnTopics env p ?ts ?a1 0) = Returned k"
        using learnTopics_returns [OF all, of p ?a1 0] by blast
      then have "fst (learnAll env ?ts ?a1) = Returned k"
        using p by (simp add: learnAll_def cons)
      from run_done_head [OF assms ok this]
      have "\<exists>k r rest. fst (runLearningLoop env a) = Returned k
                 \<and> runHistory (selfLearningStore (snd (runLearningLoop env a))) = r # rest
                 \<and> status r = StatusDone \<and> insightsSaved r = k"
        by blast
    }
    note good = this
    {
      assume e: "getProviderInstance env (activeProvider (consciousnessStore a)) = Inl err"
      then have "learnAll env ?ts ?a1 = (Thrown err, ?a1)"
        by (simp add: learnAll_def cons)
      from run_error_head [OF assms ok this]
      have "fst (runLearningLoop env a) = Thrown err
              \<and> (\<exists>r rest. runHistory (selfLearningStore (snd (runLearningLoop env a))) = r # rest
                    \<and> status r = StatusError)
              \<and> memoryStore (snd (runLearningLoop env a)) = memoryStore a"
        by (simp add: startRunApp_frame)
    }
    note noprovider = this
    {
      assume p: "getProviderInstance env (activeProvider (consciousnessStore a)) = Inr p"
        and split: "?ts = before @ t # rest"
        and all: "\<forall>d \<in> set before. \<exists>rs. search env (topicQuery d) 4 = Inr rs"
        and bad: "search env (topicQuery t) 4 = Inl err"
      have "learnTopics env p (before @ t # rest) ?a1 0
              = (Thrown err, snd (learnTopics env p before ?a1 0))"
        by (rule learnTopics_throws [OF all bad])
      then have "learnAll env ?ts ?a1 = (Thrown err, snd (learnTopics env p before ?a1 0))"
        using p split by (simp add: learnAll_def cons)
      from run_error_head [OF assms ok this]
      have "fst (runLearningLoop env a) = Thrown err
              \<and> (\<exists>r rest. runHistory (selfLearningStore (snd (runLearningLoop env a))) = r # rest
                    \<and> status r = StatusError)
              \<and> memoryStore (snd (runLearningLoop env a)) =
                  memoryStore (snd (learnTopics env p before ?a1 0))"
        by simp
    }
    note badsearch = this
    note good noprovider badsearch
  }
  note started = this
  show ?thesis
    using pre1 pre2 pre3 started by blast
qed

section \<open>The theorems at the stub collaborators\<close>

text \<open>
  C3 at the stubs: the search of the second topic throws and the run throws with it; with
  the search that never throws the run returns and is recorded as done.
\<close>

theorem C3_error_propagation_witness:
  "fst (runLearningLoop flakyEnv (appWith [rustTopic, goTopic] [])) = Thrown (Error ''fetch failed'')
   \<and> (\<exists>r rest. runHistory (selfLearningStore
          (snd (runLearningLoop flakyEnv (appWith [rustTopic, goTopic] [])))) = r # rest
        \<and> status r = StatusError)
   \<and> (\<exists>k r rest. fst (runLearningLoop stubEnv (appWith [rustTopic] [])) = Returned k
        \<and> runHistory (selfLearningStore (snd (runLearningLoop stubEnv (appWith [rustTopic] []))))
            = r # rest
        \<and> status r = StatusDone \<and> insightsSaved r = k)"
proof -
  let ?a = "appWith [rustTopic, goTopic] []"
  let ?b = "appWith [rustTopic] []"
  have a: "learning_enabled (selfLearningStore ?a)" "\<not> isRunning (selfLearningStore ?a)"
    by (simp_all add: appWith_def isRunning_def latestRun_def)
  have b: "learning_enabled (selfLearningStore ?b)" "\<not> isRunning (selfLearningStore ?b)"
    by (simp_all add: appWith_def isRunning_def latestRun_def)
  have conf: "activeProvider (consciousnessStore (appWith ts h)) \<noteq> []"
    "activeModel (consciousnessStore (appWith ts h)) \<noteq> []"
    "search_configured (webSearchStore (appWith ts h))" for ts h
    by (simp_all add: appWith_def search_configured_def)
  have ta: "activeTopics (selfLearningStore ?a) = [rustTopic] @ goTopic # []"
    and tb: "activeTopics (selfLearningStore ?b) = [rustTopic]"
    by (simp_all add: appWith_def activeTopics_def rustTopic_fields goTopic_fields)
  have sa: "\<forall>d \<in> set [rustTopic]. \<exists>rs. search flakyEnv (topicQuery d) 4 = Inr rs"
    "search flakyEnv (topicQuery goTopic) 4 = Inl (Error ''fetch failed'')"
    "getProviderInstance flakyEnv (activeProvider (consciousnessStore ?a)) = Inr ()"
    by (simp_all add: flakyEnv_def stubEnvWith_fields rustTopic_fields goTopic_fields)
  have sb: "\<forall>t \<in> set (activeTopics (selfLearningStore ?b)).
              \<exists>rs. search stubEnv (topicQuery t) 4 = Inr rs"
    "getProviderInstance stubEnv (activeProvider (consciousnessStore ?b)) = Inr ()"
    by (simp_all add: stubEnv_def stubEnvWith_fields)
  have 1: "fst (runLearningLoop flakyEnv ?a) = Thrown (Error ''fetch failed'')
     \<and> (\<exists>r rest. runHistory (selfLearningStore (snd (runLearningLoop flakyEnv ?a))) = r # rest
          \<and> status r = StatusError)"
    using C3_error_propagation [where a = ?a and env = flakyEnv and p = "()"
        and err = "Error ''fetch failed''" and before = "[rustTopic]" and t = goTopic
        and rest = "[]", OF a] conf [of "[rustTopic, goTopic]" "[]"] ta sa
    by simp
  have 2: "\<exists>k r rest. fst (runLearningLoop stubEnv ?b) = Returned k
        \<and> runHistory (selfLearningStore (snd (runLearningLoop stubEnv ?b))) = r # rest
        \<and> status r = StatusDone \<and> insightsSaved r = k"
    using C3_error_propagation [where a = ?b and env = stubEnv and p = "()", OF b]
      conf [of "[rustTopic]" "[]"] tb sb
    by simp
  from 1 2 show ?thesis by simp
qed

text \<open>
  C4 at the stubs: with a record still running at the head of the ledger the call changes
  nothing; from the empty ledger the run leaves at most one running record.
\<close>

theorem C4_single_flight_witness:
  "runLearningLoop stubEnv (appWith [rustTopic] [runRecord ''r9'' StatusRunning])
     = (Returned 0, appWith [rustTopic] [runRecord ''r9'' StatusRunning])
   \<and> runningCount (runHistory (selfLearningStore
         (snd (runLearningLoop stubEnv (appWith [rustTopic] []))))) \<le> 1"
proof -
  let ?a = "appWith [rustTopic] [runRecord ''r9'' StatusRunning]"
  let ?b = "appWith [rustTopic] []"
  have "isRunning (selfLearningStore ?a)"
    by (simp add: appWith_def isRunning_def latestRun_def runRecord_def)
  moreover have "settledTail (runHistory (selfLearningStore ?b))"
    by (simp add: appWith_def settledTail_def)
  ultimately show ?thesis
    using C4_single_flight [where a = ?a and env = stubEnv]
      C4_single_flight [where a = ?b and env = stubEnv]
    by blast
qed

text \<open>
  C9 at a ledger of two records with \<open>lastRunAt\<close> 7, and at the run whose second search
  throws.
\<close>

theorem C9_completeRun_failRun_witness:
  "map status (runHistory (completeRun 100 ''r2'' 3 ledger2)) = [StatusDone, StatusDone]
   \<and> map insightsSaved (runHistory (completeRun 100 ''r2'' 3 ledger2)) = [3, 0]
   \<and> map completedAt (runHistory (completeRun 100 ''r2'' 3 ledger2)) = [Some 100, None]
   \<and> lastRunAt (completeRun 100 ''r2'' 3 ledger2) = Some 100
   \<and> map status (runHistory (failRun 100 ''r2'' ''boom'' ledger2)) = [StatusError, StatusDone]
   \<and> map run_error (runHistory (failRun 100 ''r2'' ''boom'' ledger2)) = [Some ''boom'', None]
   \<and> lastRunAt (failRun 100 ''r2'' ''boom'' ledger2) = Some 7
   \<and> lastRunAt (selfLearningStore (snd (runLearningLoop flakyEnv (appWith [rustTopic, goTopic] []))))
       = None"
proof -
  have "fst (runLearningLoop flakyEnv (appWith [rustTopic, goTopic] []))
          = Thrown (Error ''fetch failed'')"
    by (simp add: failed_run)
  then have "lastRunAt (selfLearningStore
                (snd (runLearningLoop flakyEnv (appWith [rustTopic, goTopic] []))))
           = lastRunAt (selfLearningStore (appWith [rustTopic, goTopic] []))"
    using C9_completeRun_failRun [of 100 "''r2''" 3 ledger2 "''boom''" flakyEnv
            "appWith [rustTopic, goTopic] []" "Error ''fetch failed''"]
    by blast
  then show ?thesis
    by (simp add: appWith_def ledger2_def scheduleStore_def runRecord_def completeRun_def
          failRun_def)
qed


end
